theory Spec2Isabelle
  imports Main "HOL-Library.Char_ord" "HOL-Library.List_Lexorder"
begin

section \<open>Healem appointment scheduling: data model\<close>

text \<open>
  The embedding follows \<^verbatim>\<open>backend/models/Appointment.js\<close>, the appointment routes
  (\<^verbatim>\<open>POST /\<close>, \<^verbatim>\<open>PATCH /:id/status\<close>, \<^verbatim>\<open>PUT /:id\<close>,
  \<^verbatim>\<open>GET /doctor/:doctorId/availability\<close>), \<^verbatim>\<open>authorizeAppointmentAccess\<close> of
  \<^verbatim>\<open>backend/middleware/auth.js\<close> and \<^verbatim>\<open>validateAppointment\<close> of the validation
  middleware.

  ObjectIds are natural numbers, instants are milliseconds since the epoch (what a
  JavaScript \<^verbatim>\<open>Date\<close> holds), strings are character lists. The collection is a list of
  documents. A request is handled against one collection state; the handler returns
  its response together with the collection it leaves behind.
\<close>

datatype role = Patient | Doctor | Nurse | Admin

datatype status = Pending | Confirmed | Cancelled | Completed | NoShow

text \<open>The value of \<^verbatim>\<open>new Date(x)\<close>: an instant, or \<^verbatim>\<open>Invalid Date\<close>.\<close>

datatype jsdate = InvalidDate | ValidDate int

record time_slot =
  slot_start :: string
  slot_end :: string

record user =
  user_id :: nat
  user_role :: role
  isActive :: bool

text \<open>
  The fields of \<^verbatim>\<open>appointmentSchema\<close> that the appointment routes read or write.
  \<^verbatim>\<open>prescription\<close>, \<^verbatim>\<open>followUpDate\<close>, \<^verbatim>\<open>estimatedDuration\<close> and
  \<^verbatim>\<open>reminderSent\<close> are never assigned by these routes and keep their defaults.
\<close>

record appointment =
  appt_id :: nat
  patient :: nat
  doctor :: nat
  appointmentDate :: int
  timeSlot :: time_slot
  status :: status
  appt_type :: string
  reason :: string
  priority :: string
  notes_patient :: "string option"
  notes_doctor :: "string option"
  notes_admin :: "string option"
  cancelledBy :: "nat option"
  cancellationReason :: "string option"

type_synonym store = "appointment list"

text \<open>HTTP outcomes of the routes other than success.\<close>

datatype error = BadRequest | Forbidden | NotFound | Conflict | ServerError

fun http_code :: "error \<Rightarrow> nat" where
  "http_code BadRequest = 400"
| "http_code Forbidden = 403"
| "http_code NotFound = 404"
| "http_code Conflict = 409"
| "http_code ServerError = 500"

section \<open>Strings: the time format, minutes, trimming\<close>

definition is_digit :: "char \<Rightarrow> bool" where
  "is_digit c = (48 \<le> (of_char c :: nat) \<and> (of_char c :: nat) \<le> 57)"

definition digit_val :: "char \<Rightarrow> nat" where
  "digit_val c = of_char c - 48"

text \<open>The character classes \<^verbatim>\<open>[0-1]\<close>, \<^verbatim>\<open>[0-3]\<close> and \<^verbatim>\<open>[0-5]\<close>.\<close>

definition digit_upto :: "nat \<Rightarrow> char \<Rightarrow> bool" where
  "digit_upto k c = (48 \<le> (of_char c :: nat) \<and> (of_char c :: nat) \<le> 48 + k)"

text \<open>
  The regular expression \<^verbatim>\<open>/^([0-1]?[0-9]|2[0-3]):[0-5][0-9]$/\<close> of the schema and of
  \<^verbatim>\<open>validateAppointment\<close>: one or two hour digits, a colon, two minute digits.
\<close>

fun time_format :: "string \<Rightarrow> bool" where
  "time_format [h, c, m1, m2] =
     (is_digit h \<and> c = CHR '':'' \<and> digit_upto 5 m1 \<and> is_digit m2)"
| "time_format [h1, h2, c, m1, m2] =
     ((digit_upto 1 h1 \<and> is_digit h2 \<or> h1 = CHR ''2'' \<and> digit_upto 3 h2)
      \<and> c = CHR '':'' \<and> digit_upto 5 m1 \<and> is_digit m2)"
| "time_format _ = False"

text \<open>\<^verbatim>\<open>s.split(':')\<close>.\<close>

fun split_colon :: "string \<Rightarrow> string list" where
  "split_colon [] = [[]]"
| "split_colon (c # cs) =
     (if c = CHR '':'' then [] # split_colon cs
      else (case split_colon cs of [] \<Rightarrow> [[c]] | p # ps \<Rightarrow> (c # p) # ps))"

text \<open>
  \<^verbatim>\<open>Number\<close> on the pieces of a time string. On a non-empty string of decimal digits,
  which is all the time format lets through, it is the decimal value; anything else
  is \<^verbatim>\<open>NaN\<close>, here \<open>None\<close>.
\<close>

definition Number :: "string \<Rightarrow> nat option" where
  "Number s = (if s \<noteq> [] \<and> list_all is_digit s
               then Some (foldl (\<lambda>n c. 10 * n + digit_val c) 0 s) else None)"

text \<open>\<^verbatim>\<open>t[0] * 60 + t[1]\<close> with \<^verbatim>\<open>t = s.split(':').map(Number)\<close>; \<open>None\<close> is \<^verbatim>\<open>NaN\<close>.\<close>

definition to_minutes :: "string \<Rightarrow> nat option" where
  "to_minutes s =
     (case split_colon s of
        h # m # _ \<Rightarrow>
          (case (Number h, Number m) of
             (Some hh, Some mm) \<Rightarrow> Some (hh * 60 + mm)
           | _ \<Rightarrow> None)
      | _ \<Rightarrow> None)"

text \<open>\<^verbatim>\<open>a >= b\<close> and \<^verbatim>\<open>a < b\<close> on numbers: false as soon as one side is \<^verbatim>\<open>NaN\<close>.\<close>

fun num_ge :: "nat option \<Rightarrow> nat option \<Rightarrow> bool" where
  "num_ge (Some a) (Some b) = (a \<ge> b)"
| "num_ge _ _ = False"

fun num_less :: "nat option \<Rightarrow> nat option \<Rightarrow> bool" where
  "num_less (Some a) (Some b) = (a < b)"
| "num_less _ _ = False"

text \<open>
  White space as \<^verbatim>\<open>trim\<close> sees it, among the characters a \<open>char\<close> can hold: space,
  tab to carriage return, and the no-break space.
\<close>

definition is_space :: "char \<Rightarrow> bool" where
  "is_space c =
     ((of_char c :: nat) = 32 \<or> (9 \<le> (of_char c :: nat) \<and> (of_char c :: nat) \<le> 13)
      \<or> (of_char c :: nat) = 160)"

definition trim :: "string \<Rightarrow> string" where
  "trim s = rev (dropWhile is_space (rev (dropWhile is_space s)))"

section \<open>The model: schema validators, the save hook, the unique index\<close>

definition type_enum :: "string list" where
  "type_enum = [''consultation'', ''follow-up'', ''check-up'', ''emergency'', ''surgery'']"

definition priority_enum :: "string list" where
  "priority_enum = [''low'', ''medium'', ''high'', ''urgent'']"

fun maxlength :: "nat \<Rightarrow> string option \<Rightarrow> bool" where
  "maxlength n None = True"
| "maxlength n (Some s) = (length s \<le> n)"

text \<open>
  The validators of \<^verbatim>\<open>appointmentSchema\<close>, run by \<^verbatim>\<open>save()\<close> at the instant \<open>now\<close>:
  the date is after \<^verbatim>\<open>new Date()\<close>, both times match the format, the reason is present
  and at most 500 long, type and priority are in their enumerations, the notes are
  within their lengths.
\<close>

definition schema_valid :: "int \<Rightarrow> appointment \<Rightarrow> bool" where
  "schema_valid now a =
     (appointmentDate a > now
      \<and> time_format (slot_start (timeSlot a))
      \<and> time_format (slot_end (timeSlot a))
      \<and> reason a \<noteq> [] \<and> length (reason a) \<le> 500
      \<and> appt_type a \<in> set type_enum
      \<and> priority a \<in> set priority_enum
      \<and> maxlength 1000 (notes_patient a)
      \<and> maxlength 1000 (notes_doctor a)
      \<and> maxlength 500 (notes_admin a))"

text \<open>
  \<^verbatim>\<open>appointmentSchema.pre('save', ...)\<close>: \<open>True\<close> when the hook calls \<^verbatim>\<open>next()\<close>
  without an error, \<open>False\<close> when it passes
  \<^verbatim>\<open>Error('End time must be after start time')\<close>.
\<close>

definition pre_save :: "appointment \<Rightarrow> bool" where
  "pre_save a =
     (if slot_start (timeSlot a) \<noteq> [] \<and> slot_end (timeSlot a) \<noteq> []
      then \<not> num_ge (to_minutes (slot_start (timeSlot a))) (to_minutes (slot_end (timeSlot a)))
      else True)"

definition active :: "appointment \<Rightarrow> bool" where
  "active a = (status a = Pending \<or> status a = Confirmed)"

text \<open>
  The key of the unique partial index: doctor, appointmentDate, timeSlot.start,
  timeSlot.end; the partial filter keeps the documents whose status is pending or
  confirmed.
\<close>

definition index_key :: "appointment \<Rightarrow> nat \<times> int \<times> string \<times> string" where
  "index_key a =
     (doctor a, appointmentDate a, slot_start (timeSlot a), slot_end (timeSlot a))"

definition duplicate_key :: "store \<Rightarrow> appointment \<Rightarrow> bool" where
  "duplicate_key s a =
     (active a \<and>
      list_ex (\<lambda>b. appt_id b \<noteq> appt_id a \<and> active b \<and> index_key b = index_key a) s)"

datatype save_error = ValidationError | HookError | DuplicateKey

text \<open>
  \<^verbatim>\<open>doc.save()\<close>: validation runs first, then the schema's own hook, then the write,
  where MongoDB enforces the unique indexes (the one on \<^verbatim>\<open>_id\<close> and the partial one)
  and answers a violation with error code 11000. A new document is appended, a loaded
  one replaces the stored document of the same \<^verbatim>\<open>_id\<close>. Validation covers the whole
  document, also when a loaded one is saved again (the schema does not ask for
  modified paths only); the statements below that need a save to succeed assume a
  document that passes it.
\<close>

definition save_new :: "int \<Rightarrow> appointment \<Rightarrow> store \<Rightarrow> save_error + store" where
  "save_new now a s =
     (if \<not> schema_valid now a then Inl ValidationError
      else if \<not> pre_save a then Inl HookError
      else if list_ex (\<lambda>b. appt_id b = appt_id a) s \<or> duplicate_key s a then Inl DuplicateKey
      else Inr (s @ [a]))"

definition replace_doc :: "appointment \<Rightarrow> store \<Rightarrow> store" where
  "replace_doc a s = map (\<lambda>b. if appt_id b = appt_id a then a else b) s"

definition save_existing :: "int \<Rightarrow> appointment \<Rightarrow> store \<Rightarrow> save_error + store" where
  "save_existing now a s =
     (if \<not> schema_valid now a then Inl ValidationError
      else if \<not> pre_save a then Inl HookError
      else if duplicate_key s a then Inl DuplicateKey
      else Inr (replace_doc a s))"

definition findById :: "store \<Rightarrow> nat \<Rightarrow> appointment option" where
  "findById s i = find (\<lambda>a. appt_id a = i) s"

text \<open>
  \<^verbatim>\<open>appointmentSchema.statics.checkAvailability\<close>: no document of the doctor on exactly
  that date, in status pending or confirmed, has \<^verbatim>\<open>timeSlot.start < timeSlot.end\<close> of
  the request and \<^verbatim>\<open>timeSlot.end > timeSlot.start\<close> of the request. The fields are
  strings; MongoDB compares them as strings, which is the lexicographic order
  on character lists.
\<close>

definition checkAvailability :: "store \<Rightarrow> nat \<Rightarrow> int \<Rightarrow> time_slot \<Rightarrow> bool" where
  "checkAvailability s doctorId date ts =
     (find (\<lambda>a. doctor a = doctorId \<and> appointmentDate a = date
                 \<and> slot_start (timeSlot a) < slot_end ts
                 \<and> slot_end (timeSlot a) > slot_start ts
                 \<and> active a) s = None)"

section \<open>Middleware\<close>

text \<open>
  The body of \<^verbatim>\<open>POST /\<close>. \<open>req_appointmentDate\<close> is \<open>None\<close> when the field is not
  ISO 8601 text and otherwise the value of \<^verbatim>\<open>new Date(value)\<close>; a missing string
  field is the empty string, a missing optional field is \<open>None\<close>.
\<close>

record booking_request =
  req_doctor :: nat
  req_appointmentDate :: "jsdate option"
  req_timeSlot :: time_slot
  req_reason :: string
  req_type :: "string option"
  req_priority :: "string option"

fun optional_isIn :: "string list \<Rightarrow> string option \<Rightarrow> bool" where
  "optional_isIn xs None = True"
| "optional_isIn xs (Some v) = (v \<in> set xs)"

text \<open>
  The custom check on \<^verbatim>\<open>appointmentDate\<close>: it throws when
  \<^verbatim>\<open>appointmentDate <= now\<close>, a comparison that is false for \<^verbatim>\<open>Invalid Date\<close>.
\<close>

fun date_in_future :: "int \<Rightarrow> jsdate option \<Rightarrow> bool" where
  "date_in_future now None = False"
| "date_in_future now (Some InvalidDate) = True"
| "date_in_future now (Some (ValidDate t)) = (\<not> t \<le> now)"

text \<open>
  \<^verbatim>\<open>validateAppointment\<close> followed by \<^verbatim>\<open>handleValidationErrors\<close>: \<open>True\<close> when the
  request goes on to the handler, \<open>False\<close> when the answer is 400.
\<close>

definition validateAppointment :: "int \<Rightarrow> booking_request \<Rightarrow> bool" where
  "validateAppointment now r =
     (date_in_future now (req_appointmentDate r)
      \<and> time_format (slot_start (req_timeSlot r))
      \<and> time_format (slot_end (req_timeSlot r))
      \<and> 10 \<le> length (trim (req_reason r)) \<and> length (trim (req_reason r)) \<le> 500
      \<and> optional_isIn type_enum (req_type r)
      \<and> optional_isIn priority_enum (req_priority r))"

text \<open>
  \<^verbatim>\<open>authorizeAppointmentAccess\<close>: 404 when the appointment does not exist, 403 when
  the caller is neither its patient, its doctor, an admin nor a nurse; otherwise the
  loaded appointment is handed to the route.
\<close>

definition authorizeAppointmentAccess :: "store \<Rightarrow> user \<Rightarrow> nat \<Rightarrow> error + appointment" where
  "authorizeAppointmentAccess s caller aid =
     (case findById s aid of
        None \<Rightarrow> Inl NotFound
      | Some a \<Rightarrow>
          (let isPatient = (user_id caller = patient a);
               isDoctor = (user_id caller = doctor a);
               isAdminOrNurse = (user_role caller = Admin \<or> user_role caller = Nurse)
           in if \<not> isPatient \<and> \<not> isDoctor \<and> \<not> isAdminOrNurse then Inl Forbidden
              else Inr a))"

section \<open>The routes\<close>

text \<open>\<^verbatim>\<open>x || d\<close> on an optional string.\<close>

fun or_default :: "string option \<Rightarrow> string \<Rightarrow> string" where
  "or_default None d = d"
| "or_default (Some v) d = (if v = [] then d else v)"

text \<open>Truthiness of an optional string: present and not empty.\<close>

fun truthy :: "string option \<Rightarrow> bool" where
  "truthy None = False"
| "truthy (Some v) = (v \<noteq> [])"

text \<open>
  \<^verbatim>\<open>POST /\<close> behind \<^verbatim>\<open>authenticate\<close>: \<open>caller\<close> is the authenticated user, \<open>users\<close>
  is \<^verbatim>\<open>User.findById\<close>, \<open>now\<close> is the clock read by the validator, \<open>now'\<close> the clock
  read by the schema validator inside \<^verbatim>\<open>save()\<close>, \<open>oid\<close> the \<^verbatim>\<open>_id\<close> given to the new
  document. A date the schema cannot cast makes \<^verbatim>\<open>save()\<close> fail validation. Error
  code 11000 is answered with 409, any other failure of \<^verbatim>\<open>save()\<close> is rethrown and
  answered with 500 by the outer handler.
\<close>

definition post_appointment ::
  "(nat \<Rightarrow> user option) \<Rightarrow> int \<Rightarrow> int \<Rightarrow> nat \<Rightarrow> user \<Rightarrow> booking_request \<Rightarrow> store
     \<Rightarrow> (error + appointment) \<times> store" where
  "post_appointment users now now' oid caller r s =
     (if user_role caller \<noteq> Patient then (Inl Forbidden, s)
      else if \<not> validateAppointment now r then (Inl BadRequest, s)
      else (case users (req_doctor r) of
              None \<Rightarrow> (Inl BadRequest, s)
            | Some doctorUser \<Rightarrow>
                if user_role doctorUser \<noteq> Doctor \<or> \<not> isActive doctorUser
                then (Inl BadRequest, s)
                else (case req_appointmentDate r of
                        Some (ValidDate t) \<Rightarrow>
                          (let a = \<lparr> appt_id = oid, patient = user_id caller,
                                     doctor = req_doctor r, appointmentDate = t,
                                     timeSlot = req_timeSlot r, status = Pending,
                                     appt_type = or_default (req_type r) ''consultation'',
                                     reason = trim (req_reason r),
                                     priority = or_default (req_priority r) ''medium'',
                                     notes_patient = None, notes_doctor = None,
                                     notes_admin = None, cancelledBy = None,
                                     cancellationReason = None \<rparr>
                           in case save_new now' a s of
                                Inl DuplicateKey \<Rightarrow> (Inl Conflict, s)
                              | Inl _ \<Rightarrow> (Inl ServerError, s)
                              | Inr s' \<Rightarrow> (Inr a, s'))
                      | _ \<Rightarrow> (Inl ServerError, s))))"

text \<open>The body of \<^verbatim>\<open>PATCH /:id/status\<close>.\<close>

record status_request =
  req_status :: string
  req_notes :: "string option"

text \<open>\<^verbatim>\<open>validStatuses.includes(status)\<close>, with the status it names.\<close>

definition parse_status :: "string \<Rightarrow> status option" where
  "parse_status v =
     (if v = ''pending'' then Some Pending
      else if v = ''confirmed'' then Some Confirmed
      else if v = ''cancelled'' then Some Cancelled
      else if v = ''completed'' then Some Completed
      else if v = ''no-show'' then Some NoShow
      else None)"

definition canUpdateStatus :: "user \<Rightarrow> appointment \<Rightarrow> status \<Rightarrow> bool" where
  "canUpdateStatus caller a st =
     (user_role caller = Admin
      \<or> user_role caller = Nurse
      \<or> (user_role caller = Doctor \<and> user_id caller = doctor a)
      \<or> (user_role caller = Patient \<and> user_id caller = patient a \<and> st = Cancelled))"

definition set_role_notes :: "user \<Rightarrow> string option \<Rightarrow> appointment \<Rightarrow> appointment" where
  "set_role_notes caller n a =
     (if truthy n
      then (if user_role caller = Doctor then a\<lparr>notes_doctor := n\<rparr>
            else if user_role caller = Patient then a\<lparr>notes_patient := n\<rparr>
            else if user_role caller = Admin \<or> user_role caller = Nurse
                 then a\<lparr>notes_admin := n\<rparr>
            else a)
      else a)"

definition set_status :: "user \<Rightarrow> status \<Rightarrow> string option \<Rightarrow> appointment \<Rightarrow> appointment" where
  "set_status caller st n a =
     (let a1 = a\<lparr>status := st\<rparr>;
          a2 = (if st = Cancelled
                then a1\<lparr>cancelledBy := Some (user_id caller), cancellationReason := n\<rparr>
                else a1)
      in set_role_notes caller n a2)"

definition patch_status ::
  "int \<Rightarrow> user \<Rightarrow> nat \<Rightarrow> status_request \<Rightarrow> store \<Rightarrow> (error + appointment) \<times> store" where
  "patch_status now caller aid r s =
     (case authorizeAppointmentAccess s caller aid of
        Inl e \<Rightarrow> (Inl e, s)
      | Inr a \<Rightarrow>
          (case parse_status (req_status r) of
             None \<Rightarrow> (Inl BadRequest, s)
           | Some st \<Rightarrow>
               if \<not> canUpdateStatus caller a st then (Inl Forbidden, s)
               else (let a' = set_status caller st (req_notes r) a
                     in case save_existing now a' s of
                          Inl _ \<Rightarrow> (Inl ServerError, s)
                        | Inr s' \<Rightarrow> (Inr a', s'))))"

text \<open>
  The body of \<^verbatim>\<open>PUT /:id\<close>; \<open>None\<close> is a field that is missing or falsy,
  \<open>upd_appointmentDate\<close> otherwise holds what the date casts to.
\<close>

record update_request =
  upd_appointmentDate :: "jsdate option"
  upd_timeSlot :: "time_slot option"
  upd_reason :: "string option"
  upd_type :: "string option"
  upd_priority :: "string option"

definition canUpdate :: "user \<Rightarrow> appointment \<Rightarrow> bool" where
  "canUpdate caller a =
     (user_role caller = Admin
      \<or> user_role caller = Nurse
      \<or> (user_role caller = Patient \<and> user_id caller = patient a \<and> status a = Pending))"

text \<open>
  The three \<^verbatim>\<open>if (reason) ...\<close>, \<^verbatim>\<open>if (type) ...\<close>, \<^verbatim>\<open>if (priority) ...\<close>
  assignments; the schema trims the reason when it is set.
\<close>

definition set_fields :: "update_request \<Rightarrow> appointment \<Rightarrow> appointment" where
  "set_fields r a =
     (let a1 = (if truthy (upd_reason r) then a\<lparr>reason := trim (or_default (upd_reason r) [])\<rparr> else a);
          a2 = (if truthy (upd_type r) then a1\<lparr>appt_type := or_default (upd_type r) []\<rparr> else a1)
      in if truthy (upd_priority r) then a2\<lparr>priority := or_default (upd_priority r) []\<rparr> else a2)"

definition save_update ::
  "int \<Rightarrow> update_request \<Rightarrow> appointment \<Rightarrow> store \<Rightarrow> (error + appointment) \<times> store" where
  "save_update now r a s =
     (let a' = set_fields r a
      in case save_existing now a' s of
           Inl _ \<Rightarrow> (Inl ServerError, s)
         | Inr s' \<Rightarrow> (Inr a', s'))"

text \<open>
  \<^verbatim>\<open>PUT /:id\<close>. When both a date and a time slot are given, \<^verbatim>\<open>checkAvailability\<close> is
  asked first (a date that cannot be cast makes its query throw, answered with 500)
  and a negative answer is a 409; otherwise both fields are assigned. The remaining
  fields are assigned and the document is saved; every failure of \<^verbatim>\<open>save()\<close> is a 500.
\<close>

definition put_appointment ::
  "int \<Rightarrow> user \<Rightarrow> nat \<Rightarrow> update_request \<Rightarrow> store \<Rightarrow> (error + appointment) \<times> store" where
  "put_appointment now caller aid r s =
     (case authorizeAppointmentAccess s caller aid of
        Inl e \<Rightarrow> (Inl e, s)
      | Inr a \<Rightarrow>
          if \<not> canUpdate caller a then (Inl Forbidden, s)
          else (case (upd_appointmentDate r, upd_timeSlot r) of
                  (Some InvalidDate, Some ts) \<Rightarrow> (Inl ServerError, s)
                | (Some (ValidDate t), Some ts) \<Rightarrow>
                    if \<not> checkAvailability s (doctor a) t ts then (Inl Conflict, s)
                    else save_update now r (a\<lparr>appointmentDate := t, timeSlot := ts\<rparr>) s
                | _ \<Rightarrow> save_update now r a s))"

text \<open>The answer of the availability route.\<close>

record availability =
  availableSlots :: "string list"
  bookedSlots :: "time_slot list"

definition workingHours :: "string list" where
  "workingHours =
     [''09:00'', ''09:30'', ''10:00'', ''10:30'', ''11:00'', ''11:30'',
      ''14:00'', ''14:30'', ''15:00'', ''15:30'', ''16:00'', ''16:30'']"

text \<open>
  \<^verbatim>\<open>nextDay.setDate(nextDay.getDate() + 1)\<close> works on the calendar of the server's time
  zone: it yields the same wall-clock time on the next calendar day, which is 24 hours
  later except across a clock change, where it is 23 or 25 hours later. The time zone
  is configuration of the server, not part of the program, so the function from an
  instant to its next day is a parameter, \<open>nextDay\<close>, of everything that uses it.

  The \<^verbatim>\<open>find\<close> of the availability route: the doctor's appointments with
  \<^verbatim>\<open>searchDate <= appointmentDate < nextDay\<close> in status pending or confirmed.
\<close>

definition bookedAppointments ::
  "(int \<Rightarrow> int) \<Rightarrow> store \<Rightarrow> nat \<Rightarrow> int \<Rightarrow> appointment list" where
  "bookedAppointments nextDay s doctorId searchDate =
     filter (\<lambda>a. doctor a = doctorId
                 \<and> searchDate \<le> appointmentDate a \<and> appointmentDate a < nextDay searchDate
                 \<and> active a) s"

text \<open>
  \<^verbatim>\<open>GET /doctor/:doctorId/availability\<close>; \<open>date\<close> is \<open>None\<close> when the query has no
  (or an empty) \<^verbatim>\<open>date\<close> and otherwise the value of \<^verbatim>\<open>new Date(date)\<close>. The query
  built from \<^verbatim>\<open>Invalid Date\<close> cannot be cast, \<^verbatim>\<open>find\<close> throws, and the handler's
  \<^verbatim>\<open>catch\<close> answers 500.
\<close>

definition get_availability ::
  "(int \<Rightarrow> int) \<Rightarrow> store \<Rightarrow> nat \<Rightarrow> jsdate option \<Rightarrow> error + availability" where
  "get_availability nextDay s doctorId date =
     (case date of
        None \<Rightarrow> Inl BadRequest
      | Some InvalidDate \<Rightarrow> Inl ServerError
      | Some (ValidDate searchDate) \<Rightarrow>
          (let booked = bookedAppointments nextDay s doctorId searchDate
           in Inr \<lparr> availableSlots =
                       filter (\<lambda>slot. \<not> list_ex (\<lambda>a. slot_start (timeSlot a) = slot) booked)
                         workingHours,
                     bookedSlots = map timeSlot booked \<rparr>))"

section \<open>Properties of a collection\<close>

text \<open>\<open>pairwise_list P xs\<close>: \<open>P\<close> holds of every two documents, the earlier one first.\<close>

fun pairwise_list :: "('a \<Rightarrow> 'a \<Rightarrow> bool) \<Rightarrow> 'a list \<Rightarrow> bool" where
  "pairwise_list P [] = True"
| "pairwise_list P (x # xs) = (list_all (P x) xs \<and> pairwise_list P xs)"

text \<open>
  Two documents clash in the unique partial index when both are in its filter
  (pending or confirmed) and have the same key.
\<close>

definition clash :: "appointment \<Rightarrow> appointment \<Rightarrow> bool" where
  "clash a b = (active a \<and> active b \<and> index_key a = index_key b)"

text \<open>
  What the two unique indexes of the collection maintain: no two documents share an
  \<^verbatim>\<open>_id\<close>, and no two pending or confirmed documents share doctor, appointmentDate,
  timeSlot.start and timeSlot.end.
\<close>

definition unique_active_slots :: "store \<Rightarrow> bool" where
  "unique_active_slots s =
     (distinct (map appt_id s) \<and> pairwise_list (\<lambda>a b. \<not> clash a b) s)"

text \<open>
  The half-open intervals \<open>[start, end)\<close> of two pending or confirmed appointments of
  one doctor on one appointmentDate overlap, start and end taken as minutes since
  midnight.
\<close>

definition intervals_overlap :: "appointment \<Rightarrow> appointment \<Rightarrow> bool" where
  "intervals_overlap a b =
     (doctor a = doctor b \<and> active a \<and> active b
      \<and> appointmentDate a = appointmentDate b
      \<and> num_less (to_minutes (slot_start (timeSlot a))) (to_minutes (slot_end (timeSlot b)))
      \<and> num_less (to_minutes (slot_start (timeSlot b))) (to_minutes (slot_end (timeSlot a))))"

definition no_overlap :: "store \<Rightarrow> bool" where
  "no_overlap s = pairwise_list (\<lambda>a b. \<not> intervals_overlap a b) s"

text \<open>
  The booking form of the frontend offers the working hours as starts and computes
  the end with its \<^verbatim>\<open>getEndTime\<close>: 30 minutes later, hours and minutes padded to two
  digits. \<open>two_digits\<close> is \<^verbatim>\<open>n.toString().padStart(2, '0')\<close> for a number below
  100. On text that is not two numbers around a colon the JavaScript produces text
  with \<^verbatim>\<open>NaN\<close> in it, which the last case stands for; no working hour takes it.
\<close>

definition two_digits :: "nat \<Rightarrow> string" where
  "two_digits n = [char_of (48 + n div 10), char_of (48 + n mod 10)]"

definition getEndTime :: "string \<Rightarrow> string" where
  "getEndTime startTime =
     (case map Number (split_colon startTime) of
        Some hours # Some minutes # _ \<Rightarrow>
          (let endMinutes = minutes + 30;
               endHours = hours + endMinutes div 60;
               finalMinutes = endMinutes mod 60
           in two_digits endHours @ '':'' @ two_digits finalMinutes)
      | _ \<Rightarrow> ''NaN:NaN'')"

text \<open>The slots the booking form can submit.\<close>

definition template_slots :: "time_slot list" where
  "template_slots = map (\<lambda>s. \<lparr> slot_start = s, slot_end = getEndTime s \<rparr>) workingHours"

text \<open>Two appointments that both occupy a slot of the booking form and overlap.\<close>

definition template_overlap :: "appointment \<Rightarrow> appointment \<Rightarrow> bool" where
  "template_overlap a b =
     (timeSlot a \<in> set template_slots \<and> timeSlot b \<in> set template_slots
      \<and> intervals_overlap a b)"

definition no_template_overlap :: "store \<Rightarrow> bool" where
  "no_template_overlap s = pairwise_list (\<lambda>a b. \<not> template_overlap a b) s"

text \<open>A time written with a two-digit hour.\<close>

definition zero_padded :: "string \<Rightarrow> bool" where
  "zero_padded x = (time_format x \<and> length x = 5)"


section \<open>Sample data\<close>

text \<open>
  Users, requests and instants for the concrete runs below. Instants are
  milliseconds since the epoch: \<open>june_10\<close> is 2025-06-10T00:00:00Z, \<open>june_1\<close> is
  2025-06-01T00:00:00Z.
\<close>

definition june_10 :: int where
  "june_10 = 1749513600000"

definition june_1 :: int where
  "june_1 = 1748736000000"

text \<open>
  Two servers: one whose zone has no clock changes, where the next day is 24 hours
  later, and one in America/New_York, for which \<open>nov_2\<close> is the local midnight
  2025-11-02T04:00:00Z that opens the 25-hour day on which the clocks go back; \<open>new_york_day\<close>
  is that server's next day at this instant and away from clock changes.
\<close>

definition utc_day :: "int \<Rightarrow> int" where
  "utc_day t = t + 86400000"



definition alice :: user where
  "alice = \<lparr> user_id = 1, user_role = Patient, isActive = True \<rparr>"

definition dr_grey :: user where
  "dr_grey = \<lparr> user_id = 2, user_role = Doctor, isActive = True \<rparr>"

definition root_admin :: user where
  "root_admin = \<lparr> user_id = 3, user_role = Admin, isActive = True \<rparr>"

definition bob :: user where
  "bob = \<lparr> user_id = 4, user_role = Patient, isActive = True \<rparr>"

definition directory :: "nat \<Rightarrow> user option" where
  "directory i =
     (if i = 1 then Some alice else if i = 2 then Some dr_grey
      else if i = 3 then Some root_admin else if i = 4 then Some bob else None)"

definition slot_0900 :: time_slot where
  "slot_0900 = \<lparr> slot_start = ''09:00'', slot_end = ''09:30'' \<rparr>"

definition exam_request :: "time_slot \<Rightarrow> booking_request" where
  "exam_request ts =
     \<lparr> req_doctor = 2, req_appointmentDate = Some (ValidDate june_10),
       req_timeSlot = ts, req_reason = ''Annual physical exam'',
       req_type = None, req_priority = None \<rparr>"

definition exam :: "nat \<Rightarrow> nat \<Rightarrow> time_slot \<Rightarrow> status \<Rightarrow> appointment" where
  "exam i p ts st =
     \<lparr> appt_id = i, patient = p, doctor = 2, appointmentDate = june_10,
       timeSlot = ts, status = st, appt_type = ''consultation'',
       reason = ''Annual physical exam'', priority = ''medium'',
       notes_patient = None, notes_doctor = None, notes_admin = None,
       cancelledBy = None, cancellationReason = None \<rparr>"

definition no_changes :: update_request where
  "no_changes =
     \<lparr> upd_appointmentDate = None, upd_timeSlot = None, upd_reason = None,
       upd_type = None, upd_priority = None \<rparr>"

section \<open>Basic facts\<close>

lemmas sample_defs = june_10_def june_1_def alice_def dr_grey_def root_admin_def bob_def
  directory_def slot_0900_def exam_request_def exam_def no_changes_def utc_day_def

lemmas route_defs = post_appointment_def patch_status_def put_appointment_def save_update_def
  set_fields_def set_status_def set_role_notes_def canUpdate_def canUpdateStatus_def
  authorizeAppointmentAccess_def findById_def parse_status_def validateAppointment_def
  save_new_def save_existing_def replace_doc_def schema_valid_def pre_save_def
  duplicate_key_def index_key_def active_def checkAvailability_def
  type_enum_def priority_enum_def trim_def is_space_def
  to_minutes_def Number_def is_digit_def digit_upto_def digit_val_def Let_def

lemma pairwise_list_sorted_wrt: "pairwise_list P xs = sorted_wrt P xs"
  by (induction xs) (auto simp: list_all_iff)

lemma distinct_and_pairwise:
  "(distinct (map f xs) \<and> sorted_wrt P xs) = sorted_wrt (\<lambda>x y. f x \<noteq> f y \<and> P x y) xs"
  by (induction xs) auto

lemma map_id_replace_doc: "map appt_id (replace_doc a s) = map appt_id s"
  by (induction s) (auto simp: replace_doc_def)

lemma findById_in_set: "findById s i = Some a \<Longrightarrow> a \<in> set s \<and> appt_id a = i"
  by (auto simp: findById_def find_Some_iff)

lemma authorize_loaded:
  "authorizeAppointmentAccess s caller aid = Inr a \<Longrightarrow> a \<in> set s \<and> appt_id a = aid"
  by (auto simp: authorizeAppointmentAccess_def Let_def dest: findById_in_set
      split: option.splits if_splits)

text \<open>A request that is answered with an error leaves the collection as it was.\<close>

lemma post_appointment_failure:
  "post_appointment users now now' oid caller r s = (Inl e, s') \<Longrightarrow> s' = s"
  by (auto simp: post_appointment_def Let_def
      split: if_splits option.splits jsdate.splits sum.splits save_error.splits)


lemma put_appointment_failure: "put_appointment now caller aid r s = (Inl e, s') \<Longrightarrow> s' = s"
  by (auto simp: put_appointment_def save_update_def Let_def
      split: if_splits option.splits jsdate.splits sum.splits)

text \<open>The collection a route leaves behind is the old one or the result of one save.\<close>

lemma post_appointment_store:
  "snd (post_appointment users now now' oid caller r s) = s
   \<or> (\<exists>a. save_new now' a s = Inr (snd (post_appointment users now now' oid caller r s)))"
  by (auto simp: post_appointment_def Let_def
      split: option.splits jsdate.splits sum.splits save_error.splits)

lemma patch_status_store:
  "snd (patch_status now caller aid r s) = s
   \<or> (\<exists>a. save_existing now a s = Inr (snd (patch_status now caller aid r s)))"
  by (auto simp: patch_status_def Let_def split: option.splits sum.splits)

lemma put_appointment_store:
  "snd (put_appointment now caller aid r s) = s
   \<or> (\<exists>a. save_existing now a s = Inr (snd (put_appointment now caller aid r s)))"
  by (auto simp: put_appointment_def save_update_def Let_def
      split: option.splits jsdate.splits sum.splits)

section \<open>The unique index as an invariant\<close>

lemma save_new_unique:
  assumes "unique_active_slots s" and "save_new now a s = Inr s'"
  shows "unique_active_slots s'"
proof -
  from assms(2) have fresh: "\<forall>b\<in>set s. appt_id b \<noteq> appt_id a"
    and nd: "\<not> duplicate_key s a" and s': "s' = s @ [a]"
    by (auto simp: save_new_def list_ex_iff split: if_splits)
  from fresh nd have "\<forall>b\<in>set s. \<not> clash b a"
    by (auto simp: duplicate_key_def clash_def list_ex_iff)
  with assms(1) fresh show ?thesis
    by (auto simp: s' unique_active_slots_def pairwise_list_sorted_wrt sorted_wrt_append)
qed

lemma save_existing_unique:
  assumes "unique_active_slots s" and "save_existing now a s = Inr s'"
  shows "unique_active_slots s'"
proof -
  from assms(2) have nd: "\<not> duplicate_key s a" and s': "s' = replace_doc a s"
    by (auto simp: save_existing_def split: if_splits)
  let ?f = "\<lambda>b. if appt_id b = appt_id a then a else b"
  from assms(1) have old: "sorted_wrt (\<lambda>x y. appt_id x \<noteq> appt_id y \<and> \<not> clash x y) s"
    by (simp add: unique_active_slots_def pairwise_list_sorted_wrt distinct_and_pairwise)
  have "sorted_wrt (\<lambda>x y. \<not> clash (?f x) (?f y)) s"
  proof (rule sorted_wrt_mono_rel [OF _ old])
    fix x y assume "x \<in> set s" "y \<in> set s" "appt_id x \<noteq> appt_id y \<and> \<not> clash x y"
    with nd show "\<not> clash (?f x) (?f y)"
      by (auto simp: duplicate_key_def clash_def list_ex_iff)
  qed
  then have "pairwise_list (\<lambda>a b. \<not> clash a b) s'"
    by (simp add: s' replace_doc_def pairwise_list_sorted_wrt sorted_wrt_map)
  moreover from assms(1) have "distinct (map appt_id s')"
    by (simp add: s' map_id_replace_doc unique_active_slots_def)
  ultimately show ?thesis by (simp add: unique_active_slots_def)
qed

text \<open>
  C1, as the specification states it: pending or confirmed appointments of one doctor
  on one appointmentDate never overlap as minute intervals, and create preserves this.
  The create route relies on the unique index alone, whose key is the exact pair of
  start and end strings: starting from the empty collection, 09:00 to 10:00 is booked
  for doctor 2 on 10 June, then 09:30 to 10:30 for the same doctor and date is booked
  as well, and the two intervals overlap.
\<close>

theorem double_booking_counterexample:
  "no_overlap [] \<and>
   post_appointment directory june_1 june_1 10 alice
     (exam_request \<lparr> slot_start = ''09:00'', slot_end = ''10:00'' \<rparr>) []
   = (Inr (exam 10 1 \<lparr> slot_start = ''09:00'', slot_end = ''10:00'' \<rparr> Pending),
      [exam 10 1 \<lparr> slot_start = ''09:00'', slot_end = ''10:00'' \<rparr> Pending]) \<and>
   post_appointment directory june_1 june_1 11 bob
     (exam_request \<lparr> slot_start = ''09:30'', slot_end = ''10:30'' \<rparr>)
     [exam 10 1 \<lparr> slot_start = ''09:00'', slot_end = ''10:00'' \<rparr> Pending]
   = (Inr (exam 11 4 \<lparr> slot_start = ''09:30'', slot_end = ''10:30'' \<rparr> Pending),
      [exam 10 1 \<lparr> slot_start = ''09:00'', slot_end = ''10:00'' \<rparr> Pending,
       exam 11 4 \<lparr> slot_start = ''09:30'', slot_end = ''10:30'' \<rparr> Pending]) \<and>
   \<not> no_overlap
      [exam 10 1 \<lparr> slot_start = ''09:00'', slot_end = ''10:00'' \<rparr> Pending,
       exam 11 4 \<lparr> slot_start = ''09:30'', slot_end = ''10:30'' \<rparr> Pending]"
  by (simp add: sample_defs route_defs no_overlap_def intervals_overlap_def)

text \<open>
  The slots of the booking form are pairwise disjoint as minute intervals, so among
  appointments that occupy such slots a clash in the index is the only way to
  overlap.
\<close>

lemma template_slots_eq:
  "template_slots =
    [\<lparr>slot_start = ''09:00'', slot_end = ''09:30''\<rparr>, \<lparr>slot_start = ''09:30'', slot_end = ''10:00''\<rparr>,
     \<lparr>slot_start = ''10:00'', slot_end = ''10:30''\<rparr>, \<lparr>slot_start = ''10:30'', slot_end = ''11:00''\<rparr>,
     \<lparr>slot_start = ''11:00'', slot_end = ''11:30''\<rparr>, \<lparr>slot_start = ''11:30'', slot_end = ''12:00''\<rparr>,
     \<lparr>slot_start = ''14:00'', slot_end = ''14:30''\<rparr>, \<lparr>slot_start = ''14:30'', slot_end = ''15:00''\<rparr>,
     \<lparr>slot_start = ''15:00'', slot_end = ''15:30''\<rparr>, \<lparr>slot_start = ''15:30'', slot_end = ''16:00''\<rparr>,
     \<lparr>slot_start = ''16:00'', slot_end = ''16:30''\<rparr>, \<lparr>slot_start = ''16:30'', slot_end = ''17:00''\<rparr>]"
  by code_simp

lemma template_slots_disjoint:
  assumes "x \<in> set template_slots" and "y \<in> set template_slots"
    and "num_less (to_minutes (slot_start x)) (to_minutes (slot_end y))"
    and "num_less (to_minutes (slot_start y)) (to_minutes (slot_end x))"
  shows "x = y"
proof -
  have "\<forall>x\<in>set template_slots. \<forall>y\<in>set template_slots.
      num_less (to_minutes (slot_start x)) (to_minutes (slot_end y))
      \<and> num_less (to_minutes (slot_start y)) (to_minutes (slot_end x)) \<longrightarrow> x = y"
    by (simp add: template_slots_eq to_minutes_def Number_def is_digit_def digit_val_def)
  with assms show ?thesis by blast
qed

lemma template_overlap_clash: "template_overlap a b \<Longrightarrow> clash a b"
  by (auto simp: template_overlap_def intervals_overlap_def clash_def index_key_def
      dest: template_slots_disjoint)

lemma unique_no_template_overlap:
  assumes "unique_active_slots s"
  shows "no_template_overlap s"
proof -
  from assms have "sorted_wrt (\<lambda>a b. \<not> clash a b) s"
    by (simp add: unique_active_slots_def pairwise_list_sorted_wrt)
  then have "sorted_wrt (\<lambda>a b. \<not> template_overlap a b) s"
    by (rule sorted_wrt_mono_rel [rotated]) (auto dest: template_overlap_clash)
  then show ?thesis by (simp add: no_template_overlap_def pairwise_list_sorted_wrt)
qed

text \<open>
  C1, amended to what the unique partial index maintains: no two distinct stored
  appointments of one doctor, both pending or confirmed, with equal appointmentDate,
  have identical timeSlot.start and timeSlot.end (and no two documents share an id).
  This holds after every create, status change and update or reschedule that starts
  from a collection where it holds, whatever the request and whatever its answer; and
  with it, no two such appointments that both occupy a slot of the booking form
  overlap as minute intervals.
\<close>

theorem unique_slots_preserved:
  assumes "unique_active_slots s"
  shows "unique_active_slots (snd (post_appointment users now now' oid caller r s))
       \<and> unique_active_slots (snd (patch_status now caller aid sr s))
       \<and> unique_active_slots (snd (put_appointment now caller aid ur s))
       \<and> no_template_overlap (snd (post_appointment users now now' oid caller r s))
       \<and> no_template_overlap (snd (patch_status now caller aid sr s))
       \<and> no_template_overlap (snd (put_appointment now caller aid ur s))"
proof -
  from assms post_appointment_store [of users now now' oid caller r s]
  have 1: "unique_active_slots (snd (post_appointment users now now' oid caller r s))"
    by (auto intro: save_new_unique)
  from assms patch_status_store [of now caller aid sr s]
  have 2: "unique_active_slots (snd (patch_status now caller aid sr s))"
    by (auto intro: save_existing_unique)
  from assms put_appointment_store [of now caller aid ur s]
  have 3: "unique_active_slots (snd (put_appointment now caller aid ur s))"
    by (auto intro: save_existing_unique)
  from 1 2 3 show ?thesis by (simp add: unique_no_template_overlap)
qed

theorem unique_slots_preserved_witness:
  "unique_active_slots [exam 10 1 slot_0900 Pending]
   \<and> unique_active_slots (snd (post_appointment directory june_1 june_1 11 bob
        (exam_request \<lparr> slot_start = ''09:30'', slot_end = ''10:00'' \<rparr>)
        [exam 10 1 slot_0900 Pending]))
   \<and> unique_active_slots (snd (patch_status june_1 root_admin 10
        \<lparr> req_status = ''confirmed'', req_notes = None \<rparr> [exam 10 1 slot_0900 Pending]))
   \<and> unique_active_slots (snd (put_appointment june_1 alice 10
        (no_changes\<lparr> upd_reason := Some ''Postponed physical exam'' \<rparr>)
        [exam 10 1 slot_0900 Pending]))
   \<and> no_template_overlap (snd (post_appointment directory june_1 june_1 11 bob
        (exam_request \<lparr> slot_start = ''09:30'', slot_end = ''10:00'' \<rparr>)
        [exam 10 1 slot_0900 Pending]))"
proof -
  have h: "unique_active_slots [exam 10 1 slot_0900 Pending]"
    by (simp add: unique_active_slots_def)
  from unique_slots_preserved [OF h] h show ?thesis by blast
qed

section \<open>Status changes\<close>




text \<open>
  C5: the owning patient may cancel only while the appointment is pending, and an
  attempt on a confirmed appointment is to fail with Forbidden. The route's
  \<^verbatim>\<open>canUpdateStatus\<close> lets the owning patient ask for cancelled whatever the current
  status is: when the owning patient asks to cancel a confirmed appointment whose
  document passes validation, the answer is the updated appointment and the stored
  status becomes cancelled.
\<close>

theorem owning_patient_cancels_confirmed:
  assumes "findById s aid = Some a"
    and "user_role caller = Patient" and "user_id caller = patient a"
    and "status a = Confirmed"
    and "req_status r = ''cancelled''"
    and "schema_valid now (set_status caller Cancelled (req_notes r) a)"
    and "pre_save a"
  shows "patch_status now caller aid r s =
           (Inr (set_status caller Cancelled (req_notes r) a),
            replace_doc (set_status caller Cancelled (req_notes r) a) s)
       \<and> status (set_status caller Cancelled (req_notes r) a) = Cancelled"
proof -
  let ?a' = "set_status caller Cancelled (req_notes r) a"
  have st: "status ?a' = Cancelled" and ts: "timeSlot ?a' = timeSlot a"
    by (simp_all add: set_status_def set_role_notes_def Let_def)
  from ts assms(7) have "pre_save ?a'" by (simp add: pre_save_def)
  moreover from st have "\<not> duplicate_key s ?a'" by (simp add: duplicate_key_def active_def)
  ultimately have "save_existing now ?a' s = Inr (replace_doc ?a' s)"
    using assms(6) by (simp add: save_existing_def)
  with assms(1-5) st show ?thesis
    by (simp add: patch_status_def authorizeAppointmentAccess_def parse_status_def
        canUpdateStatus_def Let_def)
qed

theorem owning_patient_cancels_confirmed_witness:
  "patch_status june_1 alice 10 \<lparr> req_status = ''cancelled'', req_notes = None \<rparr>
     [exam 10 1 slot_0900 Confirmed]
   = (Inr ((exam 10 1 slot_0900 Cancelled)\<lparr> cancelledBy := Some 1 \<rparr>),
      [(exam 10 1 slot_0900 Cancelled)\<lparr> cancelledBy := Some 1 \<rparr>])"
  using owning_patient_cancels_confirmed [of "[exam 10 1 slot_0900 Confirmed]" 10
      "exam 10 1 slot_0900 Confirmed" alice "\<lparr> req_status = ''cancelled'', req_notes = None \<rparr>" june_1]
  by (simp add: sample_defs route_defs)

section \<open>Booking\<close>

lemma time_format_nonempty: "time_format x \<Longrightarrow> x \<noteq> []"
  by auto

text \<open>
  The parts of C7 that the validator settles: a patient's booking whose date is not
  after the validator's clock, or whose trimmed reason is shorter than 10 or longer
  than 500, is answered 400 and nothing is stored; with the other fields in order,
  the validator accepts a reason exactly when its trimmed length is from 10 to 500.
\<close>

lemma post_rejects_date_not_in_future:
  assumes "user_role caller = Patient"
    and "req_appointmentDate r = Some (ValidDate t)" and "t \<le> now"
  shows "post_appointment users now now' oid caller r s = (Inl BadRequest, s)"
  using assms by (simp add: post_appointment_def validateAppointment_def)

lemma post_rejects_reason_length:
  assumes "user_role caller = Patient"
    and "length (trim (req_reason r)) < 10 \<or> 500 < length (trim (req_reason r))"
  shows "post_appointment users now now' oid caller r s = (Inl BadRequest, s)"
  using assms by (auto simp: post_appointment_def validateAppointment_def)

lemma reason_bounds_accepted:
  "(10 \<le> length (trim x) \<and> length (trim x) \<le> 500) =
   validateAppointment june_1 ((exam_request slot_0900)\<lparr> req_reason := x \<rparr>)"
  by (simp add: validateAppointment_def sample_defs is_digit_def digit_upto_def)

text \<open>A time in the format has minutes, so on such times not below is at or above.\<close>

lemma time_format_minutes: "time_format x \<Longrightarrow> \<exists>m. to_minutes x = Some m"
  by (erule time_format.elims)
    (auto simp: to_minutes_def Number_def is_digit_def digit_upto_def)

lemma not_less_is_ge:
  "time_format x \<Longrightarrow> time_format y \<Longrightarrow>
   num_ge (to_minutes x) (to_minutes y) = (\<not> num_less (to_minutes x) (to_minutes y))"
  by (auto dest!: time_format_minutes)

text \<open>
  C7: a booking whose start is not before its end, as minutes, is to be answered with
  a validation error of the 400 class. The validator does not compare the two times;
  the order is checked only by the schema's save hook. Its error is not error code
  11000, so the route rethrows it and the outer handler answers 500. Nothing is
  stored.
\<close>

theorem time_order_violation_is_500:
  assumes "user_role caller = Patient"
    and "validateAppointment now r"
    and "users (req_doctor r) = Some d" and "user_role d = Doctor" and "isActive d"
    and "\<not> num_less (to_minutes (slot_start (req_timeSlot r)))
            (to_minutes (slot_end (req_timeSlot r)))"
  shows "post_appointment users now now' oid caller r s = (Inl ServerError, s)
       \<and> http_code ServerError = 500"
proof -
  from assms(2) have f: "time_format (slot_start (req_timeSlot r))"
    "time_format (slot_end (req_timeSlot r))"
    by (simp_all add: validateAppointment_def)
  then have "slot_start (req_timeSlot r) \<noteq> []" "slot_end (req_timeSlot r) \<noteq> []"
    by (auto dest: time_format_nonempty)
  moreover from f assms(6)
  have "num_ge (to_minutes (slot_start (req_timeSlot r))) (to_minutes (slot_end (req_timeSlot r)))"
    by (simp add: not_less_is_ge)
  ultimately show ?thesis
    using assms(1-5)
    by (auto simp: post_appointment_def save_new_def pre_save_def Let_def
        split: option.splits jsdate.splits)
qed

theorem time_order_violation_is_500_witness:
  "post_appointment directory june_1 june_1 10 alice
     (exam_request \<lparr> slot_start = ''10:00'', slot_end = ''09:00'' \<rparr>) []
   = (Inl ServerError, []) \<and> http_code ServerError = 500"
  by (rule time_order_violation_is_500 [where d = dr_grey])
    (simp_all add: sample_defs route_defs)

lemma trim_length_nonempty: "10 \<le> length (trim x) \<Longrightarrow> trim x \<noteq> []"
  by auto

lemma or_default_enum:
  "optional_isIn xs v \<Longrightarrow> d \<in> set xs \<Longrightarrow> [] \<notin> set xs \<Longrightarrow> or_default v d \<in> set xs"
  by (cases v) auto

text \<open>The document built from a request that passed the validator passes the schema's
  validators as soon as its date is after the clock read by \<^verbatim>\<open>save()\<close>.\<close>

lemma validated_schema_valid:
  assumes "validateAppointment now r" and "now' < t"
  shows "schema_valid now'
     \<lparr> appt_id = oid, patient = p, doctor = req_doctor r, appointmentDate = t,
       timeSlot = req_timeSlot r, status = Pending,
       appt_type = or_default (req_type r) ''consultation'',
       reason = trim (req_reason r),
       priority = or_default (req_priority r) ''medium'',
       notes_patient = None, notes_doctor = None, notes_admin = None,
       cancelledBy = None, cancellationReason = None \<rparr>"
proof -
  from assms(1) have "or_default (req_type r) ''consultation'' \<in> set type_enum"
    by (intro or_default_enum) (auto simp: validateAppointment_def type_enum_def)
  moreover from assms(1) have "or_default (req_priority r) ''medium'' \<in> set priority_enum"
    by (intro or_default_enum) (auto simp: validateAppointment_def priority_enum_def)
  moreover from assms(1) have "trim (req_reason r) \<noteq> []"
    by (intro trim_length_nonempty) (simp add: validateAppointment_def)
  ultimately show ?thesis
    using assms by (simp add: schema_valid_def validateAppointment_def)
qed

lemma post_appointment_success_shape:
  assumes "post_appointment users now now' oid caller r s = (Inr a, s')"
  shows "s' = s @ [a] \<and> appt_id a = oid \<and> patient a = user_id caller
       \<and> doctor a = req_doctor r \<and> status a = Pending
       \<and> req_appointmentDate r = Some (ValidDate (appointmentDate a))
       \<and> timeSlot a = req_timeSlot r
       \<and> \<not> list_ex (\<lambda>b. appt_id b = oid) s"
  using assms
  by (auto simp: post_appointment_def save_new_def Let_def
      split: if_splits option.splits jsdate.splits sum.splits save_error.splits)

lemma post_appointment_conflict:
  assumes "user_role caller = Patient"
    and "validateAppointment now r"
    and "users (req_doctor r) = Some d" and "user_role d = Doctor" and "isActive d"
    and "req_appointmentDate r = Some (ValidDate t)" and "now' < t"
    and "num_less (to_minutes (slot_start (req_timeSlot r))) (to_minutes (slot_end (req_timeSlot r)))"
    and "b \<in> set s" and "active b" and "doctor b = req_doctor r"
    and "appointmentDate b = t" and "timeSlot b = req_timeSlot r"
  shows "post_appointment users now now' oid caller r s = (Inl Conflict, s)"
proof -
  let ?a = "\<lparr> appt_id = oid, patient = user_id caller, doctor = req_doctor r,
       appointmentDate = t, timeSlot = req_timeSlot r, status = Pending,
       appt_type = or_default (req_type r) ''consultation'',
       reason = trim (req_reason r),
       priority = or_default (req_priority r) ''medium'',
       notes_patient = None, notes_doctor = None, notes_admin = None,
       cancelledBy = None, cancellationReason = None \<rparr>"
  have v: "schema_valid now' ?a" using assms(2,7) by (rule validated_schema_valid)
  from assms(8) have h: "pre_save ?a"
    by (cases "to_minutes (slot_start (req_timeSlot r))";
        cases "to_minutes (slot_end (req_timeSlot r))") (auto simp: pre_save_def)
  have "list_ex (\<lambda>b. appt_id b = oid) s \<or> duplicate_key s ?a"
    using assms(9-13) by (auto simp: duplicate_key_def list_ex_iff active_def index_key_def)
  with v h have "save_new now' ?a s = Inl DuplicateKey"
    by (simp add: save_new_def)
  with assms(1-6) show ?thesis
    by (simp add: post_appointment_def Let_def)
qed

text \<open>A valid booking of a slot whose key no pending or confirmed document holds
  is stored as a pending appointment.\<close>

lemma post_appointment_success:
  assumes "user_role caller = Patient"
    and "validateAppointment now r"
    and "users (req_doctor r) = Some d" and "user_role d = Doctor" and "isActive d"
    and "req_appointmentDate r = Some (ValidDate t)" and "now' < t"
    and "num_less (to_minutes (slot_start (req_timeSlot r))) (to_minutes (slot_end (req_timeSlot r)))"
    and "\<not> list_ex (\<lambda>b. appt_id b = oid) s"
    and "\<not> list_ex (\<lambda>b. active b \<and> doctor b = req_doctor r \<and> appointmentDate b = t
                       \<and> timeSlot b = req_timeSlot r) s"
  shows "\<exists>a. post_appointment users now now' oid caller r s = (Inr a, s @ [a])
           \<and> status a = Pending"
proof -
  let ?a = "\<lparr> appt_id = oid, patient = user_id caller, doctor = req_doctor r,
       appointmentDate = t, timeSlot = req_timeSlot r, status = Pending,
       appt_type = or_default (req_type r) ''consultation'',
       reason = trim (req_reason r),
       priority = or_default (req_priority r) ''medium'',
       notes_patient = None, notes_doctor = None, notes_admin = None,
       cancelledBy = None, cancellationReason = None \<rparr>"
  have v: "schema_valid now' ?a" using assms(2,7) by (rule validated_schema_valid)
  from assms(8) have h: "pre_save ?a"
    by (cases "to_minutes (slot_start (req_timeSlot r))";
        cases "to_minutes (slot_end (req_timeSlot r))") (auto simp: pre_save_def)
  from assms(10) have "\<not> duplicate_key s ?a"
    by (auto simp: duplicate_key_def list_ex_iff index_key_def intro: time_slot.equality)
  with v h assms(9) have "save_new now' ?a s = Inr (s @ [?a])"
    by (simp add: save_new_def)
  with assms(1-6) have "post_appointment users now now' oid caller r s = (Inr ?a, s @ [?a])"
    by (simp add: post_appointment_def Let_def)
  then show ?thesis by (intro exI [of _ ?a]) simp
qed

text \<open>
  C2: a booking attempt that passes the validator, names an active doctor, lies in the
  future of the clock read at save time and has its start before its end, for a
  doctor, date, start and end that a pending or confirmed appointment already holds,
  is answered with the conflict error, the only error whose code is 409, and the
  collection is left unchanged; in particular, when an earlier attempt for the
  identical doctor, date and timeSlot succeeded, the later attempt on the collection
  it left behind is answered with the conflict error, while an attempt for a slot
  that no pending or confirmed appointment holds is stored; so of two attempts for
  the identical free slot exactly the first succeeds. Attempts are taken one after the other, each
  a single atomic insert against the unique index.
\<close>

theorem identical_slot_conflict:
  assumes "user_role caller = Patient"
    and "validateAppointment now r"
    and "users (req_doctor r) = Some d" and "user_role d = Doctor" and "isActive d"
    and "req_appointmentDate r = Some (ValidDate t)" and "now' < t"
    and "num_less (to_minutes (slot_start (req_timeSlot r))) (to_minutes (slot_end (req_timeSlot r)))"
  shows "((\<exists>b\<in>set s. active b \<and> doctor b = req_doctor r \<and> appointmentDate b = t
             \<and> slot_start (timeSlot b) = slot_start (req_timeSlot r)
             \<and> slot_end (timeSlot b) = slot_end (req_timeSlot r)) \<longrightarrow>
          post_appointment users now now' oid caller r s = (Inl Conflict, s))
       \<and> (\<forall>now1 now1' oid1 caller1 r1 s0 a1.
            post_appointment users now1 now1' oid1 caller1 r1 s0 = (Inr a1, s)
            \<and> req_doctor r1 = req_doctor r \<and> req_appointmentDate r1 = req_appointmentDate r
            \<and> req_timeSlot r1 = req_timeSlot r \<longrightarrow>
            post_appointment users now now' oid caller r s = (Inl Conflict, s))
       \<and> (\<not> list_ex (\<lambda>b. appt_id b = oid) s
            \<and> \<not> list_ex (\<lambda>b. active b \<and> doctor b = req_doctor r \<and> appointmentDate b = t
                              \<and> timeSlot b = req_timeSlot r) s \<longrightarrow>
            (\<exists>a. post_appointment users now now' oid caller r s = (Inr a, s @ [a])
                 \<and> status a = Pending))
       \<and> http_code Conflict = 409
       \<and> (\<forall>e. http_code e = 409 \<longrightarrow> e = Conflict)"
proof (intro conjI allI impI)
  assume "\<not> list_ex (\<lambda>b. appt_id b = oid) s
            \<and> \<not> list_ex (\<lambda>b. active b \<and> doctor b = req_doctor r \<and> appointmentDate b = t
                              \<and> timeSlot b = req_timeSlot r) s"
  with assms show "\<exists>a. post_appointment users now now' oid caller r s = (Inr a, s @ [a])
                 \<and> status a = Pending"
    by (intro post_appointment_success) auto
next
  assume "\<exists>b\<in>set s. active b \<and> doctor b = req_doctor r \<and> appointmentDate b = t
             \<and> slot_start (timeSlot b) = slot_start (req_timeSlot r)
             \<and> slot_end (timeSlot b) = slot_end (req_timeSlot r)"
  then obtain b where "b \<in> set s" "active b" "doctor b = req_doctor r" "appointmentDate b = t"
    "timeSlot b = req_timeSlot r"
    by (auto intro: time_slot.equality)
  with assms show "post_appointment users now now' oid caller r s = (Inl Conflict, s)"
    by (intro post_appointment_conflict)
next
  fix now1 now1' oid1 caller1 r1 s0 a1
  assume first: "post_appointment users now1 now1' oid1 caller1 r1 s0 = (Inr a1, s)
            \<and> req_doctor r1 = req_doctor r \<and> req_appointmentDate r1 = req_appointmentDate r
            \<and> req_timeSlot r1 = req_timeSlot r"
  then have "s = s0 @ [a1] \<and> doctor a1 = req_doctor r1 \<and> status a1 = Pending
       \<and> req_appointmentDate r1 = Some (ValidDate (appointmentDate a1))
       \<and> timeSlot a1 = req_timeSlot r1"
    using post_appointment_success_shape [of users now1 now1' oid1 caller1 r1 s0 a1 s] by simp
  with first assms(6) have "a1 \<in> set s" "active a1" "doctor a1 = req_doctor r"
    "appointmentDate a1 = t" "timeSlot a1 = req_timeSlot r"
    by (auto simp: active_def)
  with assms show "post_appointment users now now' oid caller r s = (Inl Conflict, s)"
    by (intro post_appointment_conflict)
next
  show "http_code Conflict = 409" by simp
next
  fix e assume "http_code e = 409" then show "e = Conflict" by (cases e) auto
qed

theorem identical_slot_conflict_witness:
  "(\<exists>a. post_appointment directory june_1 june_1 10 alice (exam_request slot_0900) []
         = (Inr a, [a]) \<and> status a = Pending)
   \<and> post_appointment directory june_1 june_1 11 bob (exam_request slot_0900)
       [exam 10 1 slot_0900 Pending]
     = (Inl Conflict, [exam 10 1 slot_0900 Pending])
   \<and> post_appointment directory june_1 june_1 11 bob (exam_request slot_0900)
       [exam 10 1 slot_0900 Confirmed]
     = (Inl Conflict, [exam 10 1 slot_0900 Confirmed])"
proof -
  have first: "post_appointment directory june_1 june_1 10 alice (exam_request slot_0900) []
     = (Inr (exam 10 1 slot_0900 Pending), [exam 10 1 slot_0900 Pending])"
    by (simp add: sample_defs route_defs)
  have h: "validateAppointment june_1 (exam_request slot_0900)"
    "directory (req_doctor (exam_request slot_0900)) = Some dr_grey"
    "user_role dr_grey = Doctor" "isActive dr_grey"
    "req_appointmentDate (exam_request slot_0900) = Some (ValidDate june_10)"
    "june_1 < june_10"
    "num_less (to_minutes (slot_start (req_timeSlot (exam_request slot_0900))))
       (to_minutes (slot_end (req_timeSlot (exam_request slot_0900))))"
    by (simp_all add: sample_defs route_defs)
  have pa: "user_role alice = Patient" and pb: "user_role bob = Patient"
    by (simp_all add: sample_defs)
  note bob_attempt = identical_slot_conflict [where users = directory and caller = bob
      and r = "exam_request slot_0900" and d = dr_grey and t = june_10
      and now = june_1 and now' = june_1, OF pb h]
  note alice_attempt = identical_slot_conflict [where users = directory and caller = alice
      and r = "exam_request slot_0900" and d = dr_grey and t = june_10
      and now = june_1 and now' = june_1, OF pa h]
  have free: "\<not> list_ex (\<lambda>b. appt_id b = 10) []
      \<and> \<not> list_ex (\<lambda>b. active b \<and> doctor b = req_doctor (exam_request slot_0900)
                        \<and> appointmentDate b = june_10
                        \<and> timeSlot b = req_timeSlot (exam_request slot_0900)) []"
    by simp
  have 1: "\<exists>a. post_appointment directory june_1 june_1 10 alice (exam_request slot_0900) []
         = (Inr a, [a]) \<and> status a = Pending"
    using alice_attempt [where s = "[]" and oid = 10, THEN conjunct2, THEN conjunct2,
        THEN conjunct1, rule_format, OF free]
    by simp
  have 2: "post_appointment directory june_1 june_1 11 bob (exam_request slot_0900)
       [exam 10 1 slot_0900 Pending]
     = (Inl Conflict, [exam 10 1 slot_0900 Pending])"
    by (rule bob_attempt [THEN conjunct2, THEN conjunct1, rule_format,
          of june_1 june_1 10 alice "exam_request slot_0900" "[]"
            "exam 10 1 slot_0900 Pending"])
      (simp add: first)
  have held: "\<exists>b\<in>set [exam 10 1 slot_0900 Confirmed].
      active b \<and> doctor b = req_doctor (exam_request slot_0900) \<and> appointmentDate b = june_10
      \<and> slot_start (timeSlot b) = slot_start (req_timeSlot (exam_request slot_0900))
      \<and> slot_end (timeSlot b) = slot_end (req_timeSlot (exam_request slot_0900))"
    by (simp add: active_def exam_def exam_request_def)
  have 3: "post_appointment directory june_1 june_1 11 bob (exam_request slot_0900)
       [exam 10 1 slot_0900 Confirmed]
     = (Inl Conflict, [exam 10 1 slot_0900 Confirmed])"
    by (rule bob_attempt [THEN conjunct1, rule_format, OF held])
  from 1 2 3 show ?thesis by (intro conjI)
qed

section \<open>Availability\<close>



text \<open>The one check the availability route makes on its date: a missing date is a 400.\<close>

lemma availability_missing_date:
  "get_availability nextDay s doctorId None = Inl BadRequest \<and> http_code BadRequest = 400"
  by (simp add: get_availability_def)

text \<open>
  C9: an availability query whose date is present but cannot be parsed is to be
  answered with a 400-class error. The route checks only that the parameter is
  present; \<^verbatim>\<open>Invalid Date\<close> reaches the query, which throws, and the answer is 500.
\<close>

theorem availability_invalid_date:
  "get_availability nextDay s doctorId (Some InvalidDate) = Inl ServerError
   \<and> http_code ServerError = 500"
  by (simp add: get_availability_def)

lemma findById_append_fresh:
  "\<not> list_ex (\<lambda>b. appt_id b = i) s \<Longrightarrow> findById (s @ [a]) i = (if appt_id a = i then Some a else None)"
  by (induction s) (auto simp: findById_def)

lemma replace_doc_append_fresh:
  "\<not> list_ex (\<lambda>b. appt_id b = appt_id a') s \<Longrightarrow> appt_id a = appt_id a' \<Longrightarrow>
   replace_doc a' (s @ [a]) = s @ [a']"
  by (induction s) (auto simp: replace_doc_def)

lemma set_status_fields:
  "appt_id (set_status c st n a) = appt_id a \<and> doctor (set_status c st n a) = doctor a
   \<and> appointmentDate (set_status c st n a) = appointmentDate a
   \<and> timeSlot (set_status c st n a) = timeSlot a \<and> status (set_status c st n a) = st"
  by (simp add: set_status_def set_role_notes_def Let_def)

lemma patch_status_success_shape:
  assumes "patch_status now caller aid r s = (Inr a', s')"
  shows "\<exists>a st. findById s aid = Some a \<and> a' = set_status caller st (req_notes r) a
           \<and> s' = replace_doc a' s"
  using assms
  by (auto simp: patch_status_def authorizeAppointmentAccess_def save_existing_def Let_def
      split: option.splits if_splits sum.splits)

lemma bookedAppointments_append:
  "bookedAppointments nextDay (s @ [a]) d t =
     bookedAppointments nextDay s d t @
       (if doctor a = d \<and> t \<le> appointmentDate a \<and> appointmentDate a < nextDay t \<and> active a
        then [a] else [])"
  by (simp add: bookedAppointments_def)

text \<open>
  C4, as the specification states it: after a booking of template slot S is
  cancelled, S is again in \<open>availableSlots\<close>. Availability looks at the start string
  only and at the whole day, while a booking is refused only for an identical doctor,
  appointmentDate, start and end: Bob holds 09:00-10:00 with doctor 2 on 10 June,
  Alice books 09:00-09:30 for the same doctor and date and cancels it again, and
  09:00 is still not available.
\<close>

theorem slot_stays_booked_counterexample:
  "post_appointment directory june_1 june_1 10 alice (exam_request slot_0900)
     [exam 9 4 \<lparr> slot_start = ''09:00'', slot_end = ''10:00'' \<rparr> Pending]
   = (Inr (exam 10 1 slot_0900 Pending),
      [exam 9 4 \<lparr> slot_start = ''09:00'', slot_end = ''10:00'' \<rparr> Pending,
       exam 10 1 slot_0900 Pending])
   \<and> patch_status june_1 alice 10 \<lparr> req_status = ''cancelled'', req_notes = None \<rparr>
     [exam 9 4 \<lparr> slot_start = ''09:00'', slot_end = ''10:00'' \<rparr> Pending,
      exam 10 1 slot_0900 Pending]
   = (Inr ((exam 10 1 slot_0900 Cancelled)\<lparr> cancelledBy := Some 1 \<rparr>),
      [exam 9 4 \<lparr> slot_start = ''09:00'', slot_end = ''10:00'' \<rparr> Pending,
       (exam 10 1 slot_0900 Cancelled)\<lparr> cancelledBy := Some 1 \<rparr>])
   \<and> get_availability utc_day
     [exam 9 4 \<lparr> slot_start = ''09:00'', slot_end = ''10:00'' \<rparr> Pending,
      (exam 10 1 slot_0900 Cancelled)\<lparr> cancelledBy := Some 1 \<rparr>]
     2 (Some (ValidDate june_10))
   = Inr \<lparr> availableSlots =
            [''09:30'', ''10:00'', ''10:30'', ''11:00'', ''11:30'',
             ''14:00'', ''14:30'', ''15:00'', ''15:30'', ''16:00'', ''16:30''],
          bookedSlots = [\<lparr> slot_start = ''09:00'', slot_end = ''10:00'' \<rparr>] \<rparr>
   \<and> slot_start slot_0900 = ''09:00'' \<and> ''09:00'' \<in> set workingHours"
  by (simp add: sample_defs route_defs get_availability_def bookedAppointments_def
      utc_day_def workingHours_def)

text \<open>
  C4, amended: after a booking of slot S for doctor D succeeds with its date in the
  window that the availability query for D and T fetches (from T up to the next day
  of T on the server's calendar), the availability answer for D and T does not list
  S's start among \<open>availableSlots\<close> and lists S among \<open>bookedSlots\<close>; after a status
  change then turns that booking cancelled, the answer lists S's start among
  \<open>availableSlots\<close> again provided it is a template slot and no other pending or
  confirmed appointment of D in that window starts at it, which is the case when it
  was available before the booking.
\<close>

theorem availability_round_trip:
  assumes book: "post_appointment users now now' oid caller r s = (Inr a, s1)"
    and day: "T \<le> appointmentDate a" "appointmentDate a < nextDay T"
    and cancel: "patch_status now2 caller2 oid sr s1 = (Inr a', s2)" "status a' = Cancelled"
  shows "\<exists>av1 av2.
           get_availability nextDay s1 (doctor a) (Some (ValidDate T)) = Inr av1
         \<and> slot_start (timeSlot a) \<notin> set (availableSlots av1)
         \<and> timeSlot a \<in> set (bookedSlots av1)
         \<and> get_availability nextDay s2 (doctor a) (Some (ValidDate T)) = Inr av2
         \<and> (slot_start (timeSlot a) \<in> set workingHours
              \<and> (\<forall>b\<in>set s. doctor b = doctor a \<and> T \<le> appointmentDate b
                     \<and> appointmentDate b < nextDay T \<and> active b
                   \<longrightarrow> slot_start (timeSlot b) \<noteq> slot_start (timeSlot a))
            \<longrightarrow> slot_start (timeSlot a) \<in> set (availableSlots av2))"
proof -
  from book have s1: "s1 = s @ [a]" and id: "appt_id a = oid" and st: "status a = Pending"
    and fresh: "\<not> list_ex (\<lambda>b. appt_id b = oid) s"
    by (auto dest: post_appointment_success_shape)
  from fresh id have found: "findById s1 oid = Some a"
    by (simp add: s1 findById_append_fresh)
  from cancel(1) found obtain st' where a': "a' = set_status caller2 st' (req_notes sr) a"
    and s2r: "s2 = replace_doc a' s1"
    by (auto dest: patch_status_success_shape)
  from a' id have id': "appt_id a' = oid" by (simp add: set_status_fields)
  with fresh id have s2: "s2 = s @ [a']"
    by (simp add: s2r s1 replace_doc_append_fresh)
  from st day have b1: "bookedAppointments nextDay s1 (doctor a) T = bookedAppointments nextDay s (doctor a) T @ [a]"
    by (simp add: s1 bookedAppointments_append active_def)
  from cancel(2) have b2: "bookedAppointments nextDay s2 (doctor a) T = bookedAppointments nextDay s (doctor a) T"
    by (simp add: s2 bookedAppointments_append active_def)
  let ?av = "\<lambda>b. \<lparr> availableSlots =
       filter (\<lambda>slot. \<not> list_ex (\<lambda>a. slot_start (timeSlot a) = slot) b) workingHours,
       bookedSlots = map timeSlot b \<rparr>"
  have g1: "get_availability nextDay s1 (doctor a) (Some (ValidDate T))
      = Inr (?av (bookedAppointments nextDay s (doctor a) T @ [a]))"
    by (simp add: get_availability_def Let_def b1)
  have g2: "get_availability nextDay s2 (doctor a) (Some (ValidDate T))
      = Inr (?av (bookedAppointments nextDay s (doctor a) T))"
    by (simp add: get_availability_def Let_def b2)
  have free: "slot_start (timeSlot a) \<in> set (availableSlots (?av (bookedAppointments nextDay s (doctor a) T)))"
    if "slot_start (timeSlot a) \<in> set workingHours
        \<and> (\<forall>b\<in>set s. doctor b = doctor a \<and> T \<le> appointmentDate b
               \<and> appointmentDate b < nextDay T \<and> active b
             \<longrightarrow> slot_start (timeSlot b) \<noteq> slot_start (timeSlot a))"
    using that by (auto simp: list_ex_iff bookedAppointments_def)
  show ?thesis
  proof (intro exI conjI impI)
    show "get_availability nextDay s1 (doctor a) (Some (ValidDate T))
      = Inr (?av (bookedAppointments nextDay s (doctor a) T @ [a]))" by (rule g1)
    show "slot_start (timeSlot a)
      \<notin> set (availableSlots (?av (bookedAppointments nextDay s (doctor a) T @ [a])))"
      by (simp add: list_ex_iff)
    show "timeSlot a \<in> set (bookedSlots (?av (bookedAppointments nextDay s (doctor a) T @ [a])))"
      by simp
    show "get_availability nextDay s2 (doctor a) (Some (ValidDate T))
      = Inr (?av (bookedAppointments nextDay s (doctor a) T))" by (rule g2)
  next
    assume "slot_start (timeSlot a) \<in> set workingHours
        \<and> (\<forall>b\<in>set s. doctor b = doctor a \<and> T \<le> appointmentDate b
               \<and> appointmentDate b < nextDay T \<and> active b
             \<longrightarrow> slot_start (timeSlot b) \<noteq> slot_start (timeSlot a))"
    then show "slot_start (timeSlot a)
      \<in> set (availableSlots (?av (bookedAppointments nextDay s (doctor a) T)))" by (rule free)
  qed
qed

theorem availability_round_trip_witness:
  "\<exists>av1 av2.
     get_availability utc_day [exam 10 1 slot_0900 Pending] 2 (Some (ValidDate june_10)) = Inr av1
     \<and> ''09:00'' \<notin> set (availableSlots av1)
     \<and> slot_0900 \<in> set (bookedSlots av1)
     \<and> get_availability utc_day [(exam 10 1 slot_0900 Cancelled)\<lparr> cancelledBy := Some 1 \<rparr>] 2
          (Some (ValidDate june_10)) = Inr av2
     \<and> ''09:00'' \<in> set (availableSlots av2)"
proof -
  let ?a = "exam 10 1 slot_0900 Pending"
  let ?a' = "(exam 10 1 slot_0900 Cancelled)\<lparr> cancelledBy := Some 1 \<rparr>"
  have book: "post_appointment directory june_1 june_1 10 alice (exam_request slot_0900) []
     = (Inr ?a, [?a])"
    by (simp add: sample_defs route_defs)
  have day: "june_10 \<le> appointmentDate ?a" "appointmentDate ?a < utc_day june_10"
    by (simp_all add: exam_def utc_day_def)
  have cancel: "patch_status june_1 alice 10 \<lparr> req_status = ''cancelled'', req_notes = None \<rparr> [?a]
     = (Inr ?a', [?a'])"
    by (simp add: sample_defs route_defs)
  have st: "status ?a' = Cancelled" by (simp add: exam_def)
  have f: "doctor ?a = 2" "timeSlot ?a = slot_0900" "slot_start slot_0900 = ''09:00''"
    by (simp_all add: exam_def slot_0900_def)
  have free: "''09:00'' \<in> set workingHours
      \<and> (\<forall>b\<in>set []. doctor b = 2 \<and> june_10 \<le> appointmentDate b
             \<and> appointmentDate b < utc_day june_10 \<and> active b
           \<longrightarrow> slot_start (timeSlot b) \<noteq> ''09:00'')"
    by (simp add: workingHours_def)
  from availability_round_trip [where nextDay = utc_day, OF book day cancel st, unfolded f]
  obtain av1 av2 where
    "get_availability utc_day [?a] 2 (Some (ValidDate june_10)) = Inr av1"
    "''09:00'' \<notin> set (availableSlots av1)"
    "slot_0900 \<in> set (bookedSlots av1)"
    "get_availability utc_day [?a'] 2 (Some (ValidDate june_10)) = Inr av2"
    "''09:00'' \<in> set workingHours
      \<and> (\<forall>b\<in>set []. doctor b = 2 \<and> june_10 \<le> appointmentDate b
             \<and> appointmentDate b < utc_day june_10 \<and> active b
           \<longrightarrow> slot_start (timeSlot b) \<noteq> ''09:00'')
     \<longrightarrow> ''09:00'' \<in> set (availableSlots av2)"
    by blast
  with free show ?thesis by blast
qed

section \<open>Rescheduling\<close>

text \<open>
  C6, as the specification states it: the conflict check of a reschedule leaves the
  appointment's own current slot out, so a new slot that conflicts only with the
  appointment's own record is accepted. \<^verbatim>\<open>checkAvailability\<close> has no such
  exclusion: Alice, whose pending appointment is the only document, asks to move it
  from 09:00-09:30 to 09:15-09:45 on the same date and is answered 409.
\<close>

theorem reschedule_own_slot_counterexample:
  "put_appointment june_1 alice 10
     (no_changes\<lparr> upd_appointmentDate := Some (ValidDate june_10),
                  upd_timeSlot := Some \<lparr> slot_start = ''09:15'', slot_end = ''09:45'' \<rparr> \<rparr>)
     [exam 10 1 slot_0900 Pending]
   = (Inl Conflict, [exam 10 1 slot_0900 Pending])"
  by (simp add: sample_defs route_defs)


text \<open>
  On zero-padded times (five characters, as the frontend and the template write them)
  the string order of the query is the order of the minutes since midnight.
\<close>

lemma digit_not_colon: "is_digit c \<Longrightarrow> c \<noteq> CHR '':''"
  by (auto simp: is_digit_def)

lemma digit_upto_is_digit: "digit_upto k c \<Longrightarrow> k \<le> 9 \<Longrightarrow> is_digit c"
  by (auto simp: is_digit_def digit_upto_def)

lemma to_minutes_padded:
  assumes "is_digit a" "is_digit b" "is_digit d" "is_digit e"
  shows "to_minutes [a, b, CHR '':'', d, e]
    = Some ((10 * digit_val a + digit_val b) * 60 + (10 * digit_val d + digit_val e))"
  using assms by (simp add: to_minutes_def Number_def digit_not_colon)

lemma time_format_padded:
  assumes "time_format x" "length x = 5"
  obtains a b d e where "x = [a, b, CHR '':'', d, e]"
    "is_digit a" "is_digit b" "digit_upto 5 d" "is_digit e"
proof -
  from assms(2) obtain a b c d e where x: "x = [a, b, c, d, e]"
    by (auto simp: length_Suc_conv eval_nat_numeral)
  with assms(1) have "c = CHR '':''" "is_digit a" "is_digit b" "digit_upto 5 d" "is_digit e"
    by (auto simp: is_digit_def digit_upto_def)
  with x that show ?thesis by blast
qed

lemma padded_string_order:
  assumes "time_format x" "time_format y" "length x = 5" "length y = 5"
  shows "(x < y) = num_less (to_minutes x) (to_minutes y)"
proof -
  from assms(1,3) obtain a b d e where x: "x = [a, b, CHR '':'', d, e]"
    and dx: "is_digit a" "is_digit b" "digit_upto 5 d" "is_digit e"
    by (rule time_format_padded)
  from assms(2,4) obtain a' b' d' e' where y: "y = [a', b', CHR '':'', d', e']"
    and dy: "is_digit a'" "is_digit b'" "digit_upto 5 d'" "is_digit e'"
    by (rule time_format_padded)
  have mx: "to_minutes x = Some ((10 * digit_val a + digit_val b) * 60 + (10 * digit_val d + digit_val e))"
    unfolding x using dx by (intro to_minutes_padded) (auto intro: digit_upto_is_digit)
  have my: "to_minutes y = Some ((10 * digit_val a' + digit_val b') * 60 + (10 * digit_val d' + digit_val e'))"
    unfolding y using dy by (intro to_minutes_padded) (auto intro: digit_upto_is_digit)
  have eq: "(c = c') = ((of_char c :: nat) = of_char c')" for c c' :: char
    by simp
  show ?thesis
    unfolding mx my unfolding x y
    using dx dy
    by (auto simp: less_char_def eq digit_val_def is_digit_def digit_upto_def simp del: of_char_eq_iff)
qed

lemma findById_replace_doc:
  "findById s i = Some a \<Longrightarrow> appt_id a' = i \<Longrightarrow> findById (replace_doc a' s) i = Some a'"
  by (induction s) (auto simp: findById_def replace_doc_def)

text \<open>
  C6, amended: when a reschedule request by a caller who may update the appointment
  supplies a new date that parses and a new timeSlot, the conflict check is run against every
  pending or confirmed appointment of the doctor whose appointmentDate is the new
  date, the rescheduled appointment's own record not left out. The request is
  answered 409, the collection unchanged, exactly when some such appointment has its
  \<open>timeSlot.start\<close> below the new end and its \<open>timeSlot.end\<close> above the new start in
  the order of strings, which is how the query compares; the rescheduled appointment
  itself is such an appointment when it is pending or confirmed, keeps its date and
  its current slot is so related to the new one, which for zero-padded times means
  that the two minute intervals overlap. When the request succeeds the check was
  passed and appointmentDate and timeSlot of the stored appointment are both the new
  ones.
\<close>

theorem put_reschedule_check:
  assumes "authorizeAppointmentAccess s caller aid = Inr a"
    and "canUpdate caller a"
    and "upd_appointmentDate r = Some (ValidDate t)"
    and "upd_timeSlot r = Some ts"
  shows "((put_appointment now caller aid r s = (Inl Conflict, s)) =
            (\<exists>b\<in>set s. doctor b = doctor a \<and> appointmentDate b = t \<and> active b
                 \<and> slot_start (timeSlot b) < slot_end ts
                 \<and> slot_start ts < slot_end (timeSlot b)))
       \<and> (active a \<and> appointmentDate a = t
            \<and> slot_start (timeSlot a) < slot_end ts \<and> slot_start ts < slot_end (timeSlot a) \<longrightarrow>
            put_appointment now caller aid r s = (Inl Conflict, s))
       \<and> (active a \<and> appointmentDate a = t
            \<and> zero_padded (slot_start (timeSlot a)) \<and> zero_padded (slot_end (timeSlot a))
            \<and> zero_padded (slot_start ts) \<and> zero_padded (slot_end ts)
            \<and> num_less (to_minutes (slot_start (timeSlot a))) (to_minutes (slot_end ts))
            \<and> num_less (to_minutes (slot_start ts)) (to_minutes (slot_end (timeSlot a))) \<longrightarrow>
            put_appointment now caller aid r s = (Inl Conflict, s))
       \<and> (\<forall>a' s'. put_appointment now caller aid r s = (Inr a', s') \<longrightarrow>
            checkAvailability s (doctor a) t ts
            \<and> appointmentDate a' = t \<and> timeSlot a' = ts
            \<and> appt_id a' = aid \<and> s' = replace_doc a' s
            \<and> findById s' aid = Some a')"
proof -
  from assms(1) have mem: "a \<in> set s" and id: "appt_id a = aid" by (auto dest: authorize_loaded)
  from assms(1) have found: "findById s aid = Some a"
    by (auto simp: authorizeAppointmentAccess_def Let_def split: option.splits if_splits)
  have check: "checkAvailability s (doctor a) t ts =
      (\<not> (\<exists>b\<in>set s. doctor b = doctor a \<and> appointmentDate b = t \<and> active b
                 \<and> slot_start (timeSlot b) < slot_end ts
                 \<and> slot_start ts < slot_end (timeSlot b)))"
    by (auto simp: checkAvailability_def find_None_iff)
  have saved: "save_update now r b s \<noteq> (Inl Conflict, s)" for b
    by (simp add: save_update_def Let_def split: sum.splits)
  have conflict: "(put_appointment now caller aid r s = (Inl Conflict, s)) =
      (\<not> checkAvailability s (doctor a) t ts)"
    using assms saved by (simp add: put_appointment_def)
  have own: "put_appointment now caller aid r s = (Inl Conflict, s)"
    if "active a" "appointmentDate a = t" "slot_start (timeSlot a) < slot_end ts"
      "slot_start ts < slot_end (timeSlot a)"
    using that mem by (auto simp: conflict check)
  have padded: "put_appointment now caller aid r s = (Inl Conflict, s)"
    if "active a \<and> appointmentDate a = t
            \<and> zero_padded (slot_start (timeSlot a)) \<and> zero_padded (slot_end (timeSlot a))
            \<and> zero_padded (slot_start ts) \<and> zero_padded (slot_end ts)
            \<and> num_less (to_minutes (slot_start (timeSlot a))) (to_minutes (slot_end ts))
            \<and> num_less (to_minutes (slot_start ts)) (to_minutes (slot_end (timeSlot a)))"
    using that by (intro own) (simp_all add: zero_padded_def padded_string_order)
  have upd: "appointmentDate (set_fields r b) = appointmentDate b
      \<and> timeSlot (set_fields r b) = timeSlot b \<and> appt_id (set_fields r b) = appt_id b" for b
    by (simp add: set_fields_def Let_def)
  have success: "checkAvailability s (doctor a) t ts
            \<and> appointmentDate a' = t \<and> timeSlot a' = ts
            \<and> appt_id a' = aid \<and> s' = replace_doc a' s
            \<and> findById s' aid = Some a'"
    if "put_appointment now caller aid r s = (Inr a', s')" for a' s'
    using that assms upd id findById_replace_doc [OF found]
    by (auto simp: put_appointment_def save_update_def save_existing_def Let_def
        split: if_splits sum.splits)
  have c1: "(put_appointment now caller aid r s = (Inl Conflict, s)) =
            (\<exists>b\<in>set s. doctor b = doctor a \<and> appointmentDate b = t \<and> active b
                 \<and> slot_start (timeSlot b) < slot_end ts
                 \<and> slot_start ts < slot_end (timeSlot b))"
    by (simp only: conflict check not_not)
  have c2: "active a \<and> appointmentDate a = t
            \<and> slot_start (timeSlot a) < slot_end ts \<and> slot_start ts < slot_end (timeSlot a) \<longrightarrow>
            put_appointment now caller aid r s = (Inl Conflict, s)"
    using own by (intro impI) simp
  have c3: "active a \<and> appointmentDate a = t
            \<and> zero_padded (slot_start (timeSlot a)) \<and> zero_padded (slot_end (timeSlot a))
            \<and> zero_padded (slot_start ts) \<and> zero_padded (slot_end ts)
            \<and> num_less (to_minutes (slot_start (timeSlot a))) (to_minutes (slot_end ts))
            \<and> num_less (to_minutes (slot_start ts)) (to_minutes (slot_end (timeSlot a))) \<longrightarrow>
            put_appointment now caller aid r s = (Inl Conflict, s)"
    by (intro impI) (rule padded)
  have c4: "\<forall>a' s'. put_appointment now caller aid r s = (Inr a', s') \<longrightarrow>
            checkAvailability s (doctor a) t ts
            \<and> appointmentDate a' = t \<and> timeSlot a' = ts
            \<and> appt_id a' = aid \<and> s' = replace_doc a' s
            \<and> findById s' aid = Some a'"
    by (intro allI impI) (rule success)
  show ?thesis by (rule conjI [OF c1 conjI [OF c2 conjI [OF c3 c4]]])
qed

theorem put_reschedule_check_witness:
  "put_appointment june_1 alice 10
     (no_changes\<lparr> upd_appointmentDate := Some (ValidDate june_10),
                  upd_timeSlot := Some slot_0900 \<rparr>)
     [exam 10 1 slot_0900 Pending]
   = (Inl Conflict, [exam 10 1 slot_0900 Pending])
   \<and> put_appointment june_1 alice 10
     (no_changes\<lparr> upd_appointmentDate := Some (ValidDate june_10),
                  upd_timeSlot := Some \<lparr> slot_start = ''09:30'', slot_end = ''10:00'' \<rparr> \<rparr>)
     [exam 10 1 slot_0900 Pending]
   = (Inr (exam 10 1 \<lparr> slot_start = ''09:30'', slot_end = ''10:00'' \<rparr> Pending),
      [exam 10 1 \<lparr> slot_start = ''09:30'', slot_end = ''10:00'' \<rparr> Pending])
   \<and> checkAvailability [exam 10 1 slot_0900 Pending] 2 june_10
        \<lparr> slot_start = ''09:30'', slot_end = ''10:00'' \<rparr>"
proof -
  let ?r = "no_changes\<lparr> upd_appointmentDate := Some (ValidDate june_10),
                  upd_timeSlot := Some slot_0900 \<rparr>"
  let ?r' = "no_changes\<lparr> upd_appointmentDate := Some (ValidDate june_10),
                  upd_timeSlot := Some \<lparr> slot_start = ''09:30'', slot_end = ''10:00'' \<rparr> \<rparr>"
  have a: "authorizeAppointmentAccess [exam 10 1 slot_0900 Pending] alice 10
     = Inr (exam 10 1 slot_0900 Pending)"
    by (simp add: authorizeAppointmentAccess_def findById_def sample_defs)
  have c: "canUpdate alice (exam 10 1 slot_0900 Pending)"
    by (simp add: canUpdate_def sample_defs)
  have d: "upd_appointmentDate ?r = Some (ValidDate june_10)"
    and t: "upd_timeSlot ?r = Some slot_0900"
    and d': "upd_appointmentDate ?r' = Some (ValidDate june_10)"
    and t': "upd_timeSlot ?r' = Some \<lparr> slot_start = ''09:30'', slot_end = ''10:00'' \<rparr>"
    by (simp_all add: no_changes_def)
  have own: "active (exam 10 1 slot_0900 Pending)
     \<and> appointmentDate (exam 10 1 slot_0900 Pending) = june_10
     \<and> slot_start (timeSlot (exam 10 1 slot_0900 Pending)) < slot_end slot_0900
     \<and> slot_start slot_0900 < slot_end (timeSlot (exam 10 1 slot_0900 Pending))"
    by (simp add: active_def exam_def slot_0900_def)
  have rejected: "put_appointment june_1 alice 10 ?r [exam 10 1 slot_0900 Pending]
     = (Inl Conflict, [exam 10 1 slot_0900 Pending])"
    by (rule mp [OF conjunct1 [OF conjunct2 [OF put_reschedule_check [OF a c d t]]] own])
  have moved: "put_appointment june_1 alice 10 ?r' [exam 10 1 slot_0900 Pending]
     = (Inr (exam 10 1 \<lparr> slot_start = ''09:30'', slot_end = ''10:00'' \<rparr> Pending),
        [exam 10 1 \<lparr> slot_start = ''09:30'', slot_end = ''10:00'' \<rparr> Pending])"
    by (simp add: sample_defs route_defs)
  have "checkAvailability [exam 10 1 slot_0900 Pending]
      (doctor (exam 10 1 slot_0900 Pending)) june_10
      \<lparr> slot_start = ''09:30'', slot_end = ''10:00'' \<rparr>"
    by (rule conjunct1 [OF mp [OF spec [OF spec
          [OF conjunct2 [OF conjunct2 [OF conjunct2
            [OF put_reschedule_check [OF a c d' t']]]]]] moved]])
  then have free: "checkAvailability [exam 10 1 slot_0900 Pending] 2 june_10
      \<lparr> slot_start = ''09:30'', slot_end = ''10:00'' \<rparr>"
    by (simp add: exam_def)
  from rejected moved free show ?thesis by (intro conjI)
qed

text \<open>
  C10, as stated: the update path answers 409 whenever a pending or confirmed
  appointment of the doctor on that date truly overlaps the new interval, and its
  check is strictly stronger than the identical-slot uniqueness of the create path.
  The query compares the times as strings, and the format admits a one-digit hour.
  9:00 to 9:30 and 09:15 to 09:45 overlap as minute intervals, yet \<open>''9:00''\<close> is not
  below \<open>''09:45''\<close> as a string, and the reschedule onto 09:15 to 09:45 goes through.
  With 9:00 to 10:00 held, a reschedule of another appointment onto the identical slot
  passes the check, since \<open>''9:00''\<close> is not below \<open>''10:00''\<close>, and fails only in the
  unique index at save time, answered 500, while a booking of that slot through the
  create path is answered 409.
\<close>

theorem string_order_counterexample:
  "intervals_overlap
     (exam 10 1 \<lparr> slot_start = ''9:00'', slot_end = ''9:30'' \<rparr> Pending)
     (exam 11 4 \<lparr> slot_start = ''09:15'', slot_end = ''09:45'' \<rparr> Pending)
   \<and> fst (put_appointment june_1 bob 11
        (no_changes\<lparr> upd_appointmentDate := Some (ValidDate june_10),
                     upd_timeSlot := Some \<lparr> slot_start = ''09:15'', slot_end = ''09:45'' \<rparr> \<rparr>)
        [exam 10 1 \<lparr> slot_start = ''9:00'', slot_end = ''9:30'' \<rparr> Pending,
         exam 11 4 \<lparr> slot_start = ''14:00'', slot_end = ''14:30'' \<rparr> Pending])
     = Inr (exam 11 4 \<lparr> slot_start = ''09:15'', slot_end = ''09:45'' \<rparr> Pending)
   \<and> put_appointment june_1 bob 11
        (no_changes\<lparr> upd_appointmentDate := Some (ValidDate june_10),
                     upd_timeSlot := Some \<lparr> slot_start = ''9:00'', slot_end = ''10:00'' \<rparr> \<rparr>)
        [exam 10 1 \<lparr> slot_start = ''9:00'', slot_end = ''10:00'' \<rparr> Pending,
         exam 11 4 \<lparr> slot_start = ''14:00'', slot_end = ''14:30'' \<rparr> Pending]
     = (Inl ServerError,
        [exam 10 1 \<lparr> slot_start = ''9:00'', slot_end = ''10:00'' \<rparr> Pending,
         exam 11 4 \<lparr> slot_start = ''14:00'', slot_end = ''14:30'' \<rparr> Pending])
   \<and> post_appointment directory june_1 june_1 12 bob
        (exam_request \<lparr> slot_start = ''9:00'', slot_end = ''10:00'' \<rparr>)
        [exam 10 1 \<lparr> slot_start = ''9:00'', slot_end = ''10:00'' \<rparr> Pending,
         exam 11 4 \<lparr> slot_start = ''14:00'', slot_end = ''14:30'' \<rparr> Pending]
     = (Inl Conflict,
        [exam 10 1 \<lparr> slot_start = ''9:00'', slot_end = ''10:00'' \<rparr> Pending,
         exam 11 4 \<lparr> slot_start = ''14:00'', slot_end = ''14:30'' \<rparr> Pending])"
  by (simp add: sample_defs route_defs intervals_overlap_def)

text \<open>
  C10, amended: on the update path, for a caller who may update the appointment and a
  request with both a date that parses and a timeSlot, the request is answered 409, the collection
  left unchanged, whenever some pending or confirmed appointment of the same doctor
  with that appointmentDate has \<open>timeSlot.start\<close> below the new end and
  \<open>timeSlot.end\<close> above the new start in the order of strings, which is how the query
  compares. When all four times are zero-padded this is the case whenever the minute
  intervals overlap; and a stored appointment with the identical slot is such an
  appointment when the new start is below the new end as strings.
\<close>

theorem put_rejects_overlap:
  assumes "authorizeAppointmentAccess s caller aid = Inr a"
    and "canUpdate caller a"
    and "upd_appointmentDate r = Some (ValidDate t)"
    and "upd_timeSlot r = Some ts"
    and "b \<in> set s" and "doctor b = doctor a" and "appointmentDate b = t" and "active b"
  shows "(slot_start (timeSlot b) < slot_end ts \<and> slot_end (timeSlot b) > slot_start ts \<longrightarrow>
            put_appointment now caller aid r s = (Inl Conflict, s))
       \<and> (timeSlot b = ts \<and> slot_start ts < slot_end ts \<longrightarrow>
            put_appointment now caller aid r s = (Inl Conflict, s))
       \<and> (zero_padded (slot_start (timeSlot b)) \<and> zero_padded (slot_end (timeSlot b))
            \<and> zero_padded (slot_start ts) \<and> zero_padded (slot_end ts)
            \<and> num_less (to_minutes (slot_start (timeSlot b))) (to_minutes (slot_end ts))
            \<and> num_less (to_minutes (slot_start ts)) (to_minutes (slot_end (timeSlot b))) \<longrightarrow>
            put_appointment now caller aid r s = (Inl Conflict, s))
       \<and> http_code Conflict = 409"
proof -
  have conflict: "put_appointment now caller aid r s = (Inl Conflict, s)"
    if "slot_start (timeSlot b) < slot_end ts" "slot_end (timeSlot b) > slot_start ts"
  proof -
    from that assms(5-8) have "\<not> checkAvailability s (doctor a) t ts"
      by (auto simp: checkAvailability_def find_None_iff)
    with assms(1-4) show ?thesis by (simp add: put_appointment_def)
  qed
  have padded: "put_appointment now caller aid r s = (Inl Conflict, s)"
    if "zero_padded (slot_start (timeSlot b)) \<and> zero_padded (slot_end (timeSlot b))
            \<and> zero_padded (slot_start ts) \<and> zero_padded (slot_end ts)
            \<and> num_less (to_minutes (slot_start (timeSlot b))) (to_minutes (slot_end ts))
            \<and> num_less (to_minutes (slot_start ts)) (to_minutes (slot_end (timeSlot b)))"
    using that by (intro conflict) (simp_all add: zero_padded_def padded_string_order)
  from conflict padded show ?thesis by auto
qed

theorem put_rejects_overlap_witness:
  "put_appointment june_1 bob 11
     (no_changes\<lparr> upd_appointmentDate := Some (ValidDate june_10),
                  upd_timeSlot := Some \<lparr> slot_start = ''09:30'', slot_end = ''10:30'' \<rparr> \<rparr>)
     [exam 10 1 \<lparr> slot_start = ''09:00'', slot_end = ''10:00'' \<rparr> Pending,
      exam 11 4 \<lparr> slot_start = ''14:00'', slot_end = ''14:30'' \<rparr> Pending]
   = (Inl Conflict,
      [exam 10 1 \<lparr> slot_start = ''09:00'', slot_end = ''10:00'' \<rparr> Pending,
       exam 11 4 \<lparr> slot_start = ''14:00'', slot_end = ''14:30'' \<rparr> Pending])
   \<and> fst (post_appointment directory june_1 june_1 12 bob
        (exam_request \<lparr> slot_start = ''09:30'', slot_end = ''10:30'' \<rparr>)
        [exam 10 1 \<lparr> slot_start = ''09:00'', slot_end = ''10:00'' \<rparr> Pending,
         exam 11 4 \<lparr> slot_start = ''14:00'', slot_end = ''14:30'' \<rparr> Pending])
     = Inr (exam 12 4 \<lparr> slot_start = ''09:30'', slot_end = ''10:30'' \<rparr> Pending)"
proof -
  let ?s = "[exam 10 1 \<lparr> slot_start = ''09:00'', slot_end = ''10:00'' \<rparr> Pending,
      exam 11 4 \<lparr> slot_start = ''14:00'', slot_end = ''14:30'' \<rparr> Pending]"
  let ?r = "no_changes\<lparr> upd_appointmentDate := Some (ValidDate june_10),
                  upd_timeSlot := Some \<lparr> slot_start = ''09:30'', slot_end = ''10:30'' \<rparr> \<rparr>"
  have a: "authorizeAppointmentAccess ?s bob 11
     = Inr (exam 11 4 \<lparr> slot_start = ''14:00'', slot_end = ''14:30'' \<rparr> Pending)"
    by (simp add: authorizeAppointmentAccess_def findById_def sample_defs)
  have c: "canUpdate bob (exam 11 4 \<lparr> slot_start = ''14:00'', slot_end = ''14:30'' \<rparr> Pending)"
    by (simp add: canUpdate_def sample_defs)
  have d: "upd_appointmentDate ?r = Some (ValidDate june_10)"
    and t: "upd_timeSlot ?r = Some \<lparr> slot_start = ''09:30'', slot_end = ''10:30'' \<rparr>"
    by (simp_all add: no_changes_def)
  have b: "exam 10 1 \<lparr> slot_start = ''09:00'', slot_end = ''10:00'' \<rparr> Pending \<in> set ?s"
    by simp
  have h: "doctor (exam 10 1 \<lparr> slot_start = ''09:00'', slot_end = ''10:00'' \<rparr> Pending)
      = doctor (exam 11 4 \<lparr> slot_start = ''14:00'', slot_end = ''14:30'' \<rparr> Pending)"
    "appointmentDate (exam 10 1 \<lparr> slot_start = ''09:00'', slot_end = ''10:00'' \<rparr> Pending)
      = june_10"
    "active (exam 10 1 \<lparr> slot_start = ''09:00'', slot_end = ''10:00'' \<rparr> Pending)"
    by (simp_all add: exam_def active_def)
  have ov: "slot_start (timeSlot (exam 10 1 \<lparr> slot_start = ''09:00'', slot_end = ''10:00'' \<rparr> Pending))
        < slot_end \<lparr> slot_start = ''09:30'', slot_end = ''10:30'' \<rparr>
      \<and> slot_end (timeSlot (exam 10 1 \<lparr> slot_start = ''09:00'', slot_end = ''10:00'' \<rparr> Pending))
        > slot_start \<lparr> slot_start = ''09:30'', slot_end = ''10:30'' \<rparr>"
    by (simp add: exam_def)
  have "put_appointment june_1 bob 11 ?r ?s = (Inl Conflict, ?s)"
    by (rule mp [OF conjunct1 [OF put_rejects_overlap [OF a c d t b h]] ov])
  moreover have "fst (post_appointment directory june_1 june_1 12 bob
        (exam_request \<lparr> slot_start = ''09:30'', slot_end = ''10:30'' \<rparr>) ?s)
     = Inr (exam 12 4 \<lparr> slot_start = ''09:30'', slot_end = ''10:30'' \<rparr> Pending)"
    by (simp add: sample_defs route_defs)
  ultimately show ?thesis by (rule conjI)
qed

end
